theory Spec2Isabelle
  imports Complex_Main
begin

section \<open>Values, console and remote calls\<close>

text \<open>
  The command-line parser hands the \<open>id\<close> argument of \<open>rm\<close> over as a number when it
  looks like one and as a string otherwise; the argument is required, so it is never
  missing. These are the JavaScript values an id can be, and what \<open>typeof\<close> says of them.
\<close>

datatype jsval = JNum int | JStr string

fun typeof :: "jsval \<Rightarrow> string" where
  "typeof (JNum n) = ''number''"
| "typeof (JStr s) = ''string''"

text \<open>The three URLs of the DigitalOcean REST API that \<open>hw0.js\<close> builds.\<close>

datatype url =
    AccountKeysUrl            \<comment> \<open>\<open>https://api.digitalocean.com/v2/account/keys\<close>\<close>
  | DropletsUrl               \<comment> \<open>\<open>https://api.digitalocean.com/v2/droplets\<close>\<close>
  | DropletUrl jsval          \<comment> \<open>\<open>https://api.digitalocean.com/v2/droplets/${id}\<close>\<close>

text \<open>The body of the droplet-create request (\<open>data\<close> in \<open>createDroplet\<close>).\<close>

record droplet_data =
  req_name :: string
  req_region :: string
  req_size :: string
  req_image :: string
  req_ssh_keys :: "int list"
  req_backups :: bool
  req_ipv6 :: bool
  req_user_data :: "string option"
  req_private_networking :: "string option"

text \<open>The parameter objects of the EC2 SDK calls.\<close>

record instance_params =
  ImageId :: string
  InstanceType :: string
  KeyName :: string
  MinCount :: nat
  MaxCount :: nat

record tag =
  Key :: string
  Value :: string

record tag_params =
  Resources :: "string list"
  Tags :: "tag list"

record id_params =
  InstanceIds :: "jsval list"

type_synonym headers = "(string \<times> string) list"

text \<open>
  Every call the program can make to its two clients: the HTTP calls through \<open>got\<close> and
  the calls of the SDK.
\<close>

datatype call =
    GET url headers
  | POST url headers droplet_data
  | DELETE url headers
  | RunInstances instance_params
  | CreateTags tag_params
  | DescribeInstances id_params
  | TerminateInstances id_params

text \<open>
  A console line is the list of the pieces that are printed, in order: the literal text of
  a template string and the values interpolated into it. Colours (\<open>chalk\<close>) are styling
  and are left out.
\<close>

datatype part = Lit string | Val jsval | Num int | Url url | Json droplet_data

datatype line = Log "part list" | ErrorLog "part list"

text \<open>
  What a thrown value is: an \<open>Error\<close> with its message, or the \<open>TypeError\<close> of reading
  a property of \<open>undefined\<close>, with the name of the property. \<open>message\<close> is the
  \<open>message\<close> property of the error; for a \<open>TypeError\<close> its wording is the engine's, and
  only the property makes two of them differ.
\<close>

datatype error = Error string | TypeError string

fun message :: "error \<Rightarrow> string" where
  "message (Error m) = m"
| "message (TypeError property) =
     ''Cannot read property '' @ [CHR 0x27] @ property @ [CHR 0x27] @ '' of undefined''"

text \<open>
  An asynchronous function returns, throws, or ends the process with an exit code
  (\<open>process.exit\<close>).
\<close>

datatype 'a outcome = Return 'a | Throw error | Exit nat

text \<open>
  The observable state: the calls the program has made to its two clients so far (\<open>got\<close>
  for the DigitalOcean API, the SDK for EC2), the console output, and the delays (in
  milliseconds) the process has slept between poll attempts. What \<open>got\<close> sends over the
  network for one call is described with the remote side, below.
\<close>

record state =
  calls :: "call list"
  console :: "line list"
  sleeps :: "nat list"

definition init :: state where
  "init = \<lparr>calls = [], console = [], sleeps = []\<rparr>"

definition console_log :: "part list \<Rightarrow> state \<Rightarrow> state" where
  "console_log ps s = s\<lparr>console := console s @ [Log ps]\<rparr>"

definition console_error :: "part list \<Rightarrow> state \<Rightarrow> state" where
  "console_error ps s = s\<lparr>console := console s @ [ErrorLog ps]\<rparr>"

definition sleep :: "nat \<Rightarrow> state \<Rightarrow> state" where
  "sleep t s = s\<lparr>sleeps := sleeps s @ [t]\<rparr>"

type_synonym 'a prog = "state \<Rightarrow> 'a outcome \<times> state"

text \<open>\<open>await p\<close> followed by the rest of the function body.\<close>

definition await :: "'a prog \<Rightarrow> ('a \<Rightarrow> 'b prog) \<Rightarrow> 'b prog" where
  "await p k s =
     (case p s of
        (Return a, s') \<Rightarrow> k a s'
      | (Throw e, s') \<Rightarrow> (Throw e, s')
      | (Exit n, s') \<Rightarrow> (Exit n, s'))"

section \<open>The remote side\<close>

text \<open>The JSON the DigitalOcean API answers with, as far as the program reads it.\<close>

record ssh_key =
  key_name :: string
  key_id :: int

record v4_entry =
  ip_address :: string
  type :: string   \<comment> \<open>\<open>public\<close> or \<open>private\<close>; the program does not read it\<close>

record network_info =
  v4 :: "v4_entry list option"

record droplet_rec =
  droplet_id :: int
  networks :: "network_info option"

record json_body =
  ssh_keys :: "ssh_key list option"
  droplet :: "droplet_rec option"

record response =
  statusCode :: nat
  statusMessage :: string
  retry_after :: "nat option"   \<comment> \<open>the \<open>Retry-After\<close> header, in seconds, when there is one\<close>
  body :: "json_body option"

text \<open>The results of the EC2 SDK calls, as far as the program reads them.\<close>

record ec2_instance =
  InstanceId :: string
  PublicIpAddress :: "string option"

record reservation =
  Instances :: "ec2_instance list option"

record describe_result =
  Reservations :: "reservation list option"

record instance_state =
  Name :: string

record state_change =
  CurrentState :: "instance_state option"

record terminate_result =
  TerminatingInstances :: "state_change list option"

text \<open>
  The cloud vendors are outside the program. A remote describes them. For the call the
  program makes as the \<open>n\<close>-th one of the process, \<open>http\<close> is what the network answers to
  the \<open>k\<close>-th sending of its request: a network error, with its code and message, or an
  HTTP response. For an SDK call, the promise is rejected with a message (\<open>Inl\<close>) or
  resolved with a result (\<open>Inr\<close>).
\<close>

datatype wire = NetworkError string string | HttpResponse response

record remote =
  http :: "nat \<Rightarrow> nat \<Rightarrow> call \<Rightarrow> wire"
  runInstances :: "nat \<Rightarrow> instance_params \<Rightarrow> string + reservation"
  createTags :: "nat \<Rightarrow> tag_params \<Rightarrow> string + unit"
  describeInstances :: "nat \<Rightarrow> id_params \<Rightarrow> string + describe_result"
  terminateInstances :: "nat \<Rightarrow> id_params \<Rightarrow> string + terminate_result"

definition issue :: "call \<Rightarrow> state \<Rightarrow> state" where
  "issue c s = s\<lparr>calls := calls s @ [c]\<rparr>"

section \<open>The got dependency\<close>

text \<open>
  \<open>got\<close> is the HTTP client \<open>hw0.js\<close> requires (npm package \<open>got\<close>, version 9, the one
  with the \<open>json: true\<close> option); its code is not part of the repository. \<open>hw0.js\<close> sets
  none of its retry options, so the package's defaults hold: after a failure \<open>got\<close> waits and
  sends the request again, at most twice, when the failure is a network error with one of
  the listed codes, or a response with one of the listed status codes to a request with one
  of the listed methods; a 413 is sent again only when it has a \<open>Retry-After\<close> header, and
  a \<open>Retry-After\<close> of zero seconds on a 413, 429 or 503 means no retry. The promise then
  settles on the last answer: resolved with a response of status 2xx (or 304), rejected
  otherwise, with a \<open>RequestError\<close> or an \<open>HTTPError\<close>. The strings are the errors as a
  template string prints them. The waits of \<open>got\<close> between two sendings are inside the call
  and are not recorded. The body of a response is the parsed JSON; redirections, which the
  API does not use, are not modelled.
\<close>

definition digit :: "nat \<Rightarrow> char" where
  "digit d = ''0123456789'' ! d"

fun show_nat :: "nat \<Rightarrow> string" where
  "show_nat n = (if n < 10 then [digit n] else show_nat (n div 10) @ [digit (n mod 10)])"

declare show_nat.simps [simp del]

fun http_method :: "call \<Rightarrow> string" where
  "http_method (GET u h) = ''GET''"
| "http_method (POST u h d) = ''POST''"
| "http_method (DELETE u h) = ''DELETE''"
| "http_method c = ''''"

definition retry_methods :: "string list" where
  "retry_methods = [''GET'', ''PUT'', ''HEAD'', ''DELETE'', ''OPTIONS'', ''TRACE'']"

definition retry_statusCodes :: "nat list" where
  "retry_statusCodes = [408, 413, 429, 500, 502, 503, 504]"

definition retry_errorCodes :: "string list" where
  "retry_errorCodes = [''ETIMEDOUT'', ''ECONNRESET'', ''EADDRINUSE'', ''ECONNREFUSED'',
                       ''EPIPE'', ''ENOTFOUND'', ''ENETUNREACH'', ''EAI_AGAIN'']"

definition retryAfterStatusCodes :: "nat list" where
  "retryAfterStatusCodes = [413, 429, 503]"

definition succeeded :: "response \<Rightarrow> bool" where
  "succeeded r = (statusCode r = 304 \<or> (200 \<le> statusCode r \<and> statusCode r \<le> 299))"

text \<open>Whether \<open>got\<close> sends the request again after this answer, as long as retries are left.\<close>

fun sends_again :: "string \<Rightarrow> wire \<Rightarrow> bool" where
  "sends_again m (NetworkError code msg) = (code \<in> set retry_errorCodes)"
| "sends_again m (HttpResponse r) =
     (if succeeded r then False
      else if m \<notin> set retry_methods \<or> statusCode r \<notin> set retry_statusCodes then False
      else (case retry_after r of
              Some after \<Rightarrow>
                if statusCode r \<in> set retryAfterStatusCodes then 0 < after
                else statusCode r \<noteq> 413
            | None \<Rightarrow> statusCode r \<noteq> 413))"

fun settled :: "wire \<Rightarrow> string + response" where
  "settled (NetworkError code msg) = Inl (''RequestError: '' @ msg)"
| "settled (HttpResponse r) =
     (if succeeded r then Inr r
      else Inl (''HTTPError: Response code '' @ show_nat (statusCode r) @
                '' ('' @ statusMessage r @ '')''))"

text \<open>
  One call of \<open>got\<close>: \<open>answers k\<close> is the answer to the \<open>k\<close>-th sending, \<open>left\<close> the
  retries that are left. The result is what the promise settles on and the number of times
  the request has been sent.
\<close>

fun send :: "(nat \<Rightarrow> wire) \<Rightarrow> string \<Rightarrow> nat \<Rightarrow> nat \<Rightarrow> (string + response) \<times> nat" where
  "send answers m k 0 = (settled (answers k), Suc k)"
| "send answers m k (Suc left) =
     (if sends_again m (answers k) then send answers m (Suc k) left
      else (settled (answers k), Suc k))"

definition got :: "remote \<Rightarrow> nat \<Rightarrow> call \<Rightarrow> string + response" where
  "got R n c = fst (send (\<lambda>k. http R n k c) (http_method c) 0 2)"

definition sends :: "remote \<Rightarrow> nat \<Rightarrow> call \<Rightarrow> nat" where
  "sends R n c = snd (send (\<lambda>k. http R n k c) (http_method c) 0 2)"

section \<open>The SDK for EC2\<close>

text \<open>
  The SDK (npm package \<open>aws-sdk\<close>, version 2) is not part of the repository either. Before
  it sends anything it validates the parameters of a call against the declared shapes:
  a member of \<open>InstanceIds\<close> that is not a string makes the promise reject with
  \<open>InvalidParameterType\<close>, and nothing is sent. The program only builds lists of one id;
  for them the message is the one below. All other parameters the program builds are
  strings and counts, as declared. What the SDK sends over the network for a call that it
  accepts, and how often, is not modelled.
\<close>

fun paramValidation :: "call \<Rightarrow> string option" where
  "paramValidation (DescribeInstances p) =
     (if list_all (\<lambda>i. typeof i = ''string'') (InstanceIds p) then None
      else Some ''Expected params.InstanceIds[0] to be a string'')"
| "paramValidation (TerminateInstances p) =
     (if list_all (\<lambda>i. typeof i = ''string'') (InstanceIds p) then None
      else Some ''Expected params.InstanceIds[0] to be a string'')"
| "paramValidation c = None"

text \<open>An SDK call followed by \<open>.promise()\<close>: a rejection is thrown by the \<open>await\<close>.\<close>

definition sdk :: "call \<Rightarrow> (nat \<Rightarrow> string + 'a) \<Rightarrow> 'a prog" where
  "sdk c answer s =
     (case paramValidation c of
        Some err \<Rightarrow> (Throw (Error err), s)
      | None \<Rightarrow>
         (case answer (length (calls s)) of
            Inl err \<Rightarrow> (Throw (Error err), issue c s)
          | Inr r \<Rightarrow> (Return r, issue c s)))"

section \<open>DigitalOceanProvider\<close>

record provider =
  headers :: headers

definition DigitalOceanProvider :: "string \<Rightarrow> provider" where
  "DigitalOceanProvider token =
     \<lparr>headers = [(''Content-Type'', ''application/json''),
                 (''Authorization'', ''Bearer '' @ token)]\<rparr>"

definition makeRequest :: "remote \<Rightarrow> provider \<Rightarrow> url \<Rightarrow> response option prog" where
  "makeRequest R this u s =
     (let c = GET u (headers this) in
      case got R (length (calls s)) c of
        Inl err \<Rightarrow> (Return None, console_error [Url u, Lit '' '', Lit err] (issue c s))
      | Inr resp \<Rightarrow> (Return (Some resp), issue c s))"

definition findSSHKeyPair :: "remote \<Rightarrow> provider \<Rightarrow> string \<Rightarrow> int prog" where
  "findSSHKeyPair R this name =
     await (makeRequest R this AccountKeysUrl) (\<lambda>resp s.
       let notfound = (Throw (Error (''Unable to find SSH key pair: '' @ name)), s) in
       case resp of
         None \<Rightarrow> notfound
       | Some r \<Rightarrow>
          (case body r of
             None \<Rightarrow> notfound
           | Some b \<Rightarrow>
              (case ssh_keys b of
                 None \<Rightarrow> notfound
               | Some ks \<Rightarrow>
                  (case find (\<lambda>key. key_name key = name) ks of
                     None \<Rightarrow> notfound
                   | Some sshKey \<Rightarrow> (Return (key_id sshKey), s)))))"

definition createDroplet ::
  "remote \<Rightarrow> provider \<Rightarrow> string \<Rightarrow> string \<Rightarrow> string \<Rightarrow> string \<Rightarrow> response option prog" where
  "createDroplet R this dropletName region imageName sshKeyPairName s =
     (if dropletName = '''' \<or> region = '''' \<or> imageName = '''' \<or> sshKeyPairName = ''''
      then (Return None,
            console_log [Lit ''You must provide non-empty parameters for createDroplet!''] s)
      else
        await (findSSHKeyPair R this sshKeyPairName) (\<lambda>sshKeyId s1.
          let data = \<lparr>req_name = dropletName, req_region = region, req_size = ''512mb'',
                      req_image = imageName, req_ssh_keys = [sshKeyId],
                      req_backups = False, req_ipv6 = False, req_user_data = None,
                      req_private_networking = None\<rparr>;
              s2 = console_log [Lit ''Attempting to create: '', Json data] s1;
              c = POST DropletsUrl (headers this) data;
              s3 = issue c s2
          in case got R (length (calls s2)) c of
               Inl err \<Rightarrow> (Return None, console_error [Lit ''createDroplet: '', Lit err] s3)
             | Inr response \<Rightarrow>
                (if statusCode response = 202
                 then (case body response of
                         None \<Rightarrow> (Throw (TypeError ''droplet''), s3)
                       | Some b \<Rightarrow>
                          (case droplet b of
                             None \<Rightarrow> (Throw (TypeError ''id''), s3)
                           | Some d \<Rightarrow>
                              (Return (Some response),
                               console_log [Lit ''Created droplet id '', Num (droplet_id d)] s3)))
                 else (Return (Some response), s3))) s)"

definition dropletInfo :: "remote \<Rightarrow> provider \<Rightarrow> jsval \<Rightarrow> response option prog" where
  "dropletInfo R this i s =
     (if typeof i \<noteq> ''number''
      then (Return None, console_log [Lit ''You must provide an integer id for your droplet!''] s)
      else makeRequest R this (DropletUrl i) s)"

definition deleteDroplet :: "remote \<Rightarrow> provider \<Rightarrow> jsval \<Rightarrow> unit prog" where
  "deleteDroplet R this i s =
     (if typeof i \<noteq> ''number''
      then (Return (), console_log [Lit ''You must provide an integer id for your droplet!''] s)
      else
        let c = DELETE (DropletUrl i) (headers this) in
        case got R (length (calls s)) c of
          Inl err \<Rightarrow> (Return (), console_error [Lit ''deleteDroplet: '', Lit err] (issue c s))
        | Inr response \<Rightarrow>
           (if statusCode response = 204
            then (Return (), console_log [Lit ''Deleted droplet '', Val i] (issue c s))
            else (Return (), issue c s)))"

section \<open>The retry dependency\<close>

text \<open>
  \<open>retry\<close> is the function exported by the npm package \<open>async-retry\<close>, which
  \<open>hw0.js\<close> requires; its code is not part of the repository. The definitions of this
  section follow the package: the function is invoked once and, as long as an invocation
  throws, invoked again after each of the delays of the schedule; when the schedule is used
  up the promise is rejected with the main error of the attempts, the error whose message
  the attempts have thrown most often (the later one when two messages are as frequent).
  The schedule has \<open>retries\<close> delays. The delay before retry
  number \<open>attempt\<close> is \<open>Math.round(random * Math.max(minTimeout, 1) * factor ^ attempt)\<close>,
  capped at \<open>maxTimeout\<close>, where \<open>random\<close> is \<open>Math.random() + 1\<close>; the schedule is sorted.
  The options \<open>hw0.js\<close> never sets keep the package's defaults: \<open>factor\<close> is 2,
  \<open>randomize\<close> is true, and \<open>maxTimeout\<close> is infinite (\<open>None\<close>). The draws of
  \<open>Math.random()\<close> are a parameter \<open>rnd\<close>, taken as exact real numbers.
\<close>

record retry_options =
  retries :: nat
  minTimeout :: nat
  maxTimeout :: "nat option"

definition round_js :: "real \<Rightarrow> nat" where
  "round_js x = nat \<lfloor>x + 1 / 2\<rfloor>"

definition createTimeout :: "nat \<Rightarrow> retry_options \<Rightarrow> real \<Rightarrow> nat" where
  "createTimeout attempt opts draw =
     (let random = draw + 1;
          timeout = round_js (random * of_nat (max (minTimeout opts) 1) * 2 ^ attempt)
      in case maxTimeout opts of None \<Rightarrow> timeout | Some m \<Rightarrow> min timeout m)"

definition timeouts :: "retry_options \<Rightarrow> (nat \<Rightarrow> real) \<Rightarrow> nat list" where
  "timeouts opts rnd = sort (map (\<lambda>i. createTimeout i opts (rnd i)) [0..<retries opts])"

fun mainError_from ::
  "error list \<Rightarrow> (string \<Rightarrow> nat) \<Rightarrow> error option \<Rightarrow> nat \<Rightarrow> error option" where
  "mainError_from [] counts mainErr mainErrorCount = mainErr"
| "mainError_from (err # errors) counts mainErr mainErrorCount =
     (let count = counts (message err) + 1;
          counts' = counts(message err := count)
      in if mainErrorCount \<le> count then mainError_from errors counts' (Some err) count
         else mainError_from errors counts' mainErr mainErrorCount)"

definition mainError :: "error list \<Rightarrow> error option" where
  "mainError errors = mainError_from errors (\<lambda>m. 0) None 0"

text \<open>
  \<open>errs\<close> are the errors of the attempts made so far. When the last attempt has thrown,
  the list of errors is not empty and has a main error.
\<close>

fun retry_loop :: "'a prog \<Rightarrow> nat list \<Rightarrow> error list \<Rightarrow> 'a prog" where
  "retry_loop fn [] errs s =
     (case fn s of
        (Throw e, s') \<Rightarrow>
          (Throw (case mainError (errs @ [e]) of Some err \<Rightarrow> err | None \<Rightarrow> e), s')
      | (Return v, s') \<Rightarrow> (Return v, s')
      | (Exit n, s') \<Rightarrow> (Exit n, s'))"
| "retry_loop fn (t # ts) errs s =
     (case fn s of
        (Throw e, s') \<Rightarrow> retry_loop fn ts (errs @ [e]) (sleep t s')
      | (Return v, s') \<Rightarrow> (Return v, s')
      | (Exit n, s') \<Rightarrow> (Exit n, s'))"

definition retry :: "'a prog \<Rightarrow> retry_options \<Rightarrow> (nat \<Rightarrow> real) \<Rightarrow> 'a prog" where
  "retry fn opts rnd s =
     (if (case maxTimeout opts of None \<Rightarrow> False | Some m \<Rightarrow> m < minTimeout opts)
      then (Throw (Error ''minTimeout is greater than maxTimeout''), s)
      else retry_loop fn (timeouts opts rnd) [] s)"

section \<open>AWSProvider\<close>

definition instanceInfo :: "remote \<Rightarrow> jsval \<Rightarrow> ec2_instance option prog" where
  "instanceInfo R i =
     (let params = \<lparr>InstanceIds = [i]\<rparr> in
      await (sdk (DescribeInstances params) (\<lambda>n. describeInstances R n params)) (\<lambda>resp s.
        case Reservations resp of
          None \<Rightarrow> (Throw (TypeError ''0''), s)
        | Some [] \<Rightarrow> (Throw (TypeError ''Instances''), s)
        | Some (r # _) \<Rightarrow>
           (case Instances r of
              None \<Rightarrow> (Throw (TypeError ''0''), s)
            | Some [] \<Rightarrow> (Return None, s)
            | Some (inst # _) \<Rightarrow> (Return (Some inst), s))))"

definition createInstance ::
  "remote \<Rightarrow> string \<Rightarrow> string \<Rightarrow> string \<Rightarrow> string \<Rightarrow> ec2_instance option prog" where
  "createInstance R name region imageName sshKeyPairName =
     (let instanceParams = \<lparr>ImageId = imageName, InstanceType = ''t2.micro'',
                             KeyName = sshKeyPairName, MinCount = 1, MaxCount = 1\<rparr> in
      await (sdk (RunInstances instanceParams) (\<lambda>n. runInstances R n instanceParams))
        (\<lambda>resp s.
          case Instances resp of
            None \<Rightarrow> (Throw (TypeError ''0''), s)
          | Some [] \<Rightarrow> (Throw (TypeError ''InstanceId''), s)
          | Some (inst # _) \<Rightarrow>
             (let instanceId = InstanceId inst;
                  tagParams = \<lparr>Resources = [instanceId],
                               Tags = [\<lparr>Key = ''Name'', Value = name\<rparr>]\<rparr>
              in await (sdk (CreateTags tagParams) (\<lambda>n. createTags R n tagParams))
                   (\<lambda>_. instanceInfo R (JStr instanceId)) s)))"

text \<open>The function \<open>deleteInstance\<close> hands to \<open>retry\<close>, and the options it passes.\<close>

definition deleteInstance_attempt :: "remote \<Rightarrow> id_params \<Rightarrow> string prog" where
  "deleteInstance_attempt R params =
     await (sdk (TerminateInstances params) (\<lambda>n. terminateInstances R n params)) (\<lambda>resp s.
       let terminalStates = [''stopped'', ''terminated''] in
       case TerminatingInstances resp of
         None \<Rightarrow> (Throw (TypeError ''0''), s)
       | Some [] \<Rightarrow> (Throw (TypeError ''CurrentState''), s)
       | Some (t # _) \<Rightarrow>
          (case CurrentState t of
             None \<Rightarrow> (Throw (TypeError ''Name''), s)
           | Some st \<Rightarrow>
              (let currentState = Name st in
               if currentState \<in> set terminalStates then (Return currentState, s)
               else (Throw (Error ''Still waiting for termination...''), s))))"

definition deleteInstance_options :: retry_options where
  "deleteInstance_options = \<lparr>retries = 50, minTimeout = 1000, maxTimeout = Some 3000\<rparr>"

definition deleteInstance :: "remote \<Rightarrow> (nat \<Rightarrow> real) \<Rightarrow> jsval \<Rightarrow> terminate_result prog" where
  "deleteInstance R rnd i =
     (let params = \<lparr>InstanceIds = [i]\<rparr> in
      await (sdk (TerminateInstances params) (\<lambda>n. terminateInstances R n params)) (\<lambda>resp s.
        await (retry (deleteInstance_attempt R params) deleteInstance_options rnd)
          (\<lambda>_ s'. (Return resp, s'))
          (console_log [Lit ''Waiting for termination...''] s)))"

section \<open>The commands\<close>

definition validateDigitalOceanToken :: "string option \<Rightarrow> string prog" where
  "validateDigitalOceanToken NCSU_DOTOKEN s =
     (let quit =
        (Exit 1,
         console_log [Lit ''You may need to refresh your shell in order for your changes to take place.'']
          (console_log [Lit ''Please set your environment variables with appropriate token.'']
            (console_log [Lit ''NCSU_DOTOKEN is not defined!''] s)))
      in case NCSU_DOTOKEN of
           None \<Rightarrow> quit
         | Some token \<Rightarrow> if token = '''' then quit else (Return token, s))"

text \<open>The options of the two polls that wait for an address.\<close>

definition provision_options :: retry_options where
  "provision_options = \<lparr>retries = 10, minTimeout = 3000, maxTimeout = None\<rparr>"

definition provisionDigitalOceanDroplet_attempt ::
  "remote \<Rightarrow> provider \<Rightarrow> jsval \<Rightarrow> string prog" where
  "provisionDigitalOceanDroplet_attempt R client dropletId =
     await (dropletInfo R client dropletId) (\<lambda>resp s.
       let notready = (Throw (Error ''Droplet networking not ready...''), s) in
       case resp of
         None \<Rightarrow> notready
       | Some r \<Rightarrow>
          (case body r of
             None \<Rightarrow> (Throw (TypeError ''droplet''), s)
           | Some b \<Rightarrow>
              (case droplet b of
                 None \<Rightarrow> notready
               | Some d \<Rightarrow>
                  (case networks d of
                     None \<Rightarrow> notready
                   | Some nw \<Rightarrow>
                      (case v4 nw of
                         None \<Rightarrow> notready
                       | Some [] \<Rightarrow> notready
                       | Some (a # _) \<Rightarrow>
                          (Return (ip_address a),
                           console_log [Lit ''IP:'', Lit '' '', Lit (ip_address a)] s))))))"

definition provisionDigitalOceanDroplet ::
  "string option \<Rightarrow> string \<Rightarrow> remote \<Rightarrow> (nat \<Rightarrow> real) \<Rightarrow> unit prog" where
  "provisionDigitalOceanDroplet NCSU_DOTOKEN uuid R rnd =
     await (validateDigitalOceanToken NCSU_DOTOKEN) (\<lambda>token.
       let client = DigitalOceanProvider token;
           name = ''jwmanes2-'' @ uuid;
           region = ''nyc1'';
           image = ''ubuntu-19-10-x64'';
           sshKeyPairName = ''csc519''
       in await (createDroplet R client name region image sshKeyPairName)
            (\<lambda>createDropletResponse s.
               case createDropletResponse of
                 None \<Rightarrow> (Return (), s)
               | Some r \<Rightarrow>
                  (case body r of
                     None \<Rightarrow> (Throw (TypeError ''droplet''), s)
                   | Some b \<Rightarrow>
                      (case droplet b of
                         None \<Rightarrow> (Return (), s)
                       | Some d \<Rightarrow>
                          await (retry (provisionDigitalOceanDroplet_attempt R client
                                          (JNum (droplet_id d)))
                                   provision_options rnd)
                            (\<lambda>_ s'. (Return (), s')) s))))"

definition destroyDigitalOceanDroplet ::
  "string option \<Rightarrow> remote \<Rightarrow> jsval \<Rightarrow> unit prog" where
  "destroyDigitalOceanDroplet NCSU_DOTOKEN R i =
     await (validateDigitalOceanToken NCSU_DOTOKEN) (\<lambda>token.
       deleteDroplet R (DigitalOceanProvider token) i)"

definition provisionAWSInstance_attempt :: "remote \<Rightarrow> jsval \<Rightarrow> string prog" where
  "provisionAWSInstance_attempt R instanceId =
     await (instanceInfo R instanceId) (\<lambda>info s.
       case info of
         None \<Rightarrow> (Throw (TypeError ''PublicIpAddress''), s)
       | Some inst \<Rightarrow>
          (case PublicIpAddress inst of
             None \<Rightarrow> (Throw (Error ''Instance networking not ready...''), s)
           | Some ip \<Rightarrow>
              if ip = '''' then (Throw (Error ''Instance networking not ready...''), s)
              else (Return ip, console_log [Lit ''IP:'', Lit '' '', Lit ip] s)))"

definition provisionAWSInstance :: "string \<Rightarrow> remote \<Rightarrow> (nat \<Rightarrow> real) \<Rightarrow> unit prog" where
  "provisionAWSInstance uuid R rnd s0 =
     (let name = ''jwmanes2-'' @ uuid;
          region = ''us-east-1'';
          image = ''ami-0b6b1f8f449568786'';
          sshKeyPairName = ''csc519''
      in await (createInstance R name region image sshKeyPairName) (\<lambda>inst s.
           case inst of
             None \<Rightarrow> (Throw (TypeError ''InstanceId''), s)
           | Some i \<Rightarrow>
              (let instanceId = InstanceId i in
               await (retry (provisionAWSInstance_attempt R (JStr instanceId))
                        provision_options rnd)
                 (\<lambda>_ s'. (Return (), s'))
                 (console_log [Lit ''Waiting for IP address...'']
                   (console_log [Lit ''Instance ID: '', Lit instanceId] s))))
           (console_log [Lit ''Creating AWS instance...''] s0))"

definition destroyAWSInstance :: "remote \<Rightarrow> (nat \<Rightarrow> real) \<Rightarrow> jsval \<Rightarrow> unit prog" where
  "destroyAWSInstance R rnd i s =
     await (deleteInstance R rnd i) (\<lambda>_ s'. (Return (), s'))
       (console_log [Lit ''Deleting AWS instance '', Val i] s)"

text \<open>The command line: \<open>create <provider>\<close> and \<open>rm <provider> <id>\<close>.\<close>

datatype provider_key = digitalocean | aws

datatype command = create provider_key | rm provider_key jsval

fun hw0 ::
  "string option \<Rightarrow> string \<Rightarrow> remote \<Rightarrow> (nat \<Rightarrow> real) \<Rightarrow> command \<Rightarrow> unit prog" where
  "hw0 NCSU_DOTOKEN uuid R rnd (create digitalocean) =
     provisionDigitalOceanDroplet NCSU_DOTOKEN uuid R rnd"
| "hw0 NCSU_DOTOKEN uuid R rnd (create aws) = provisionAWSInstance uuid R rnd"
| "hw0 NCSU_DOTOKEN uuid R rnd (rm digitalocean i) =
     destroyDigitalOceanDroplet NCSU_DOTOKEN R i"
| "hw0 NCSU_DOTOKEN uuid R rnd (rm aws i) = destroyAWSInstance R rnd i"

subsection \<open>The earlier revision of the script\<close>

text \<open>
  The earlier revision of \<open>hw0.js\<close> that the repository keeps reads the token when the
  module is loaded: the check runs before the command line is parsed, whatever the
  command. \<open>handler\<close> is the command handler that runs afterwards.
\<close>

definition config_token_check :: "string option \<Rightarrow> unit prog" where
  "config_token_check NCSU_DOTOKEN s =
     (let quit =
        (Exit 1,
         console_log [Lit ''You may need to refresh your shell in order for your changes to take place.'']
          (console_log [Lit ''Please set your environment variables with appropriate token.'']
            (console_log [Lit ''NCSU_DOTOKEN is not defined!''] s)))
      in case NCSU_DOTOKEN of
           None \<Rightarrow> quit
         | Some token \<Rightarrow>
            if token = '''' then quit
            else (Return (), console_log [Lit ''Your token is: '', Lit (take 4 token), Lit ''...''] s))"

definition earlier_hw0 :: "string option \<Rightarrow> unit prog \<Rightarrow> unit prog" where
  "earlier_hw0 NCSU_DOTOKEN handler = await (config_token_check NCSU_DOTOKEN) (\<lambda>_. handler)"

subsection \<open>The three polls\<close>

text \<open>
  Names for the three \<open>await retry(...)\<close> expressions of \<open>provisionDigitalOceanDroplet\<close>,
  \<open>provisionAWSInstance\<close> and \<open>deleteInstance\<close>, and for the request the first of them
  repeats. \<open>deleteInstance\<close> reaches its poll only after its first \<open>terminateInstances\<close>
  call has been accepted, that is, with an id that is a string.
\<close>

abbreviation droplet_poll :: "remote \<Rightarrow> provider \<Rightarrow> int \<Rightarrow> (nat \<Rightarrow> real) \<Rightarrow> string prog" where
  "droplet_poll R client i rnd \<equiv>
     retry (provisionDigitalOceanDroplet_attempt R client (JNum i)) provision_options rnd"

abbreviation instance_poll :: "remote \<Rightarrow> string \<Rightarrow> (nat \<Rightarrow> real) \<Rightarrow> string prog" where
  "instance_poll R i rnd \<equiv>
     retry (provisionAWSInstance_attempt R (JStr i)) provision_options rnd"

abbreviation termination_poll :: "remote \<Rightarrow> string \<Rightarrow> (nat \<Rightarrow> real) \<Rightarrow> string prog" where
  "termination_poll R i rnd \<equiv>
     retry (deleteInstance_attempt R \<lparr>InstanceIds = [JStr i]\<rparr>) deleteInstance_options rnd"

abbreviation droplet_request :: "provider \<Rightarrow> int \<Rightarrow> call" where
  "droplet_request client i \<equiv> GET (DropletUrl (JNum i)) (headers client)"

section \<open>Reading the answers of the remote side\<close>

text \<open>
  The properties below speak about what a descriptor carries. These functions read it off
  an answer of the remote side: the addresses of a droplet (all the entries of
  \<open>networks.v4\<close>) and the public ones among them, the address a droplet request yields, the instance a \<open>DescribeInstances\<close> answer describes and its address, the state
  a \<open>TerminateInstances\<close> answer reports, and the keys of the account.
\<close>

definition droplet_addresses :: "droplet_rec \<Rightarrow> string list" where
  "droplet_addresses d =
     (case networks d of
        None \<Rightarrow> []
      | Some nw \<Rightarrow> (case v4 nw of None \<Rightarrow> [] | Some as \<Rightarrow> map ip_address as))"

definition public_addresses :: "droplet_rec \<Rightarrow> string list" where
  "public_addresses d =
     (case networks d of
        None \<Rightarrow> []
      | Some nw \<Rightarrow>
         (case v4 nw of
            None \<Rightarrow> []
          | Some as \<Rightarrow> map ip_address (filter (\<lambda>a. type a = ''public'') as)))"

definition described_droplet :: "string + response \<Rightarrow> droplet_rec option" where
  "described_droplet a =
     (case a of
        Inl err \<Rightarrow> None
      | Inr r \<Rightarrow> (case body r of None \<Rightarrow> None | Some b \<Rightarrow> droplet b))"

definition droplet_ip :: "string + response \<Rightarrow> string option" where
  "droplet_ip a =
     (case described_droplet a of
        None \<Rightarrow> None
      | Some d \<Rightarrow> (case droplet_addresses d of [] \<Rightarrow> None | ip # _ \<Rightarrow> Some ip))"

definition instance_addresses :: "ec2_instance \<Rightarrow> string list" where
  "instance_addresses inst =
     (case PublicIpAddress inst of
        None \<Rightarrow> []
      | Some ip \<Rightarrow> if ip = '''' then [] else [ip])"

definition described_instance :: "string + describe_result \<Rightarrow> ec2_instance option" where
  "described_instance a =
     (case a of
        Inl err \<Rightarrow> None
      | Inr r \<Rightarrow>
         (case Reservations r of
            Some (res # _) \<Rightarrow>
              (case Instances res of Some (inst # _) \<Rightarrow> Some inst | _ \<Rightarrow> None)
          | _ \<Rightarrow> None))"

definition instance_ip :: "string + describe_result \<Rightarrow> string option" where
  "instance_ip a =
     (case described_instance a of
        None \<Rightarrow> None
      | Some inst \<Rightarrow> (case instance_addresses inst of [] \<Rightarrow> None | ip # _ \<Rightarrow> Some ip))"

definition reported_state :: "string + terminate_result \<Rightarrow> string option" where
  "reported_state a =
     (case a of
        Inl err \<Rightarrow> None
      | Inr r \<Rightarrow>
         (case TerminatingInstances r of
            Some (t # _) \<Rightarrow> map_option Name (CurrentState t)
          | _ \<Rightarrow> None))"

definition terminal_state :: "string + terminate_result \<Rightarrow> string option" where
  "terminal_state a =
     (case reported_state a of
        None \<Rightarrow> None
      | Some st \<Rightarrow> if st = ''stopped'' \<or> st = ''terminated'' then Some st else None)"

text \<open>
  The error an attempt of each poll throws when the answer to its call is not ready.
\<close>

definition droplet_attempt_error :: "string + response \<Rightarrow> error" where
  "droplet_attempt_error a =
     (case a of
        Inl err \<Rightarrow> Error ''Droplet networking not ready...''
      | Inr r \<Rightarrow>
         (case body r of
            None \<Rightarrow> TypeError ''droplet''
          | Some b \<Rightarrow> Error ''Droplet networking not ready...''))"

definition instance_attempt_error :: "string + describe_result \<Rightarrow> error" where
  "instance_attempt_error a =
     (case a of
        Inl err \<Rightarrow> Error err
      | Inr r \<Rightarrow>
         (case Reservations r of
            None \<Rightarrow> TypeError ''0''
          | Some [] \<Rightarrow> TypeError ''Instances''
          | Some (res # _) \<Rightarrow>
             (case Instances res of
                None \<Rightarrow> TypeError ''0''
              | Some [] \<Rightarrow> TypeError ''PublicIpAddress''
              | Some (inst # _) \<Rightarrow> Error ''Instance networking not ready...'')))"

definition termination_attempt_error :: "string + terminate_result \<Rightarrow> error" where
  "termination_attempt_error a =
     (case a of
        Inl err \<Rightarrow> Error err
      | Inr r \<Rightarrow>
         (case TerminatingInstances r of
            None \<Rightarrow> TypeError ''0''
          | Some [] \<Rightarrow> TypeError ''CurrentState''
          | Some (t # _) \<Rightarrow>
             (case CurrentState t of
                None \<Rightarrow> TypeError ''Name''
              | Some st \<Rightarrow> Error ''Still waiting for termination...'')))"


section \<open>Stub remotes\<close>

text \<open>
  \<open>offline\<close> refuses every connection and rejects every SDK call. \<open>stub ready_at\<close> is an
  account with the single key \<open>csc519\<close>; it accepts every request, and the droplet 555 and
  the instance \<open>i-0555\<close> have no address and are still shutting down in the answers to the
  calls issued before the \<open>ready_at\<close>-th call of the process. \<open>unavailable\<close> is \<open>stub 0\<close>
  with a DigitalOcean API that answers 503 to everything. \<open>private_only\<close> is \<open>stub 0\<close>
  but for the droplet, whose only address is a private one.
\<close>

definition offline :: remote where
  "offline = \<lparr>http = (\<lambda>n k c. NetworkError ''ECONNREFUSED''
                                     ''connect ECONNREFUSED 203.0.113.1:443''),
              runInstances = (\<lambda>n p. Inl ''ECONNREFUSED''),
              createTags = (\<lambda>n p. Inl ''ECONNREFUSED''),
              describeInstances = (\<lambda>n p. Inl ''ECONNREFUSED''),
              terminateInstances = (\<lambda>n p. Inl ''ECONNREFUSED'')\<rparr>"

definition reply :: "nat \<Rightarrow> string \<Rightarrow> json_body option \<Rightarrow> wire" where
  "reply code text b =
     HttpResponse \<lparr>statusCode = code, statusMessage = text, retry_after = None, body = b\<rparr>"

fun stub_http :: "nat \<Rightarrow> nat \<Rightarrow> nat \<Rightarrow> call \<Rightarrow> wire" where
  "stub_http ready_at n k (GET AccountKeysUrl h) =
     reply 200 ''OK''
       (Some \<lparr>ssh_keys = Some [\<lparr>key_name = ''csc519'', key_id = 42\<rparr>], droplet = None\<rparr>)"
| "stub_http ready_at n k (GET (DropletUrl i) h) =
     reply 200 ''OK''
       (Some \<lparr>ssh_keys = None,
              droplet = Some \<lparr>droplet_id = 555,
                networks = Some \<lparr>v4 = Some (if n < ready_at then []
                  else [\<lparr>ip_address = ''203.0.113.5'', type = ''public''\<rparr>])\<rparr>\<rparr>\<rparr>)"
| "stub_http ready_at n k (POST DropletsUrl h d) =
     reply 202 ''Accepted''
       (Some \<lparr>ssh_keys = None, droplet = Some \<lparr>droplet_id = 555, networks = None\<rparr>\<rparr>)"
| "stub_http ready_at n k (DELETE (DropletUrl i) h) = reply 204 ''No Content'' None"
| "stub_http ready_at n k c = reply 404 ''Not Found'' None"

definition stub_instance :: "nat \<Rightarrow> nat \<Rightarrow> ec2_instance" where
  "stub_instance ready_at n =
     \<lparr>InstanceId = ''i-0555'',
      PublicIpAddress = (if n < ready_at then None else Some ''198.51.100.7'')\<rparr>"

definition stub :: "nat \<Rightarrow> remote" where
  "stub ready_at =
     \<lparr>http = stub_http ready_at,
      runInstances = (\<lambda>n p. Inr \<lparr>Instances = Some [stub_instance ready_at n]\<rparr>),
      createTags = (\<lambda>n p. Inr ()),
      describeInstances = (\<lambda>n p.
        Inr \<lparr>Reservations = Some [\<lparr>Instances = Some [stub_instance ready_at n]\<rparr>]\<rparr>),
      terminateInstances = (\<lambda>n p.
        Inr \<lparr>TerminatingInstances = Some [\<lparr>CurrentState =
          Some \<lparr>Name = (if n < ready_at then ''shutting-down'' else ''terminated'')\<rparr>\<rparr>]\<rparr>)\<rparr>"

definition unavailable :: remote where
  "unavailable =
     (stub 0)\<lparr>http := (\<lambda>n k c. reply 503 ''Service Unavailable'' None)\<rparr>"

definition private_droplet :: droplet_rec where
  "private_droplet =
     \<lparr>droplet_id = 555,
      networks = Some \<lparr>v4 = Some [\<lparr>ip_address = ''10.0.0.2'', type = ''private''\<rparr>]\<rparr>\<rparr>"

definition private_only :: remote where
  "private_only =
     (stub 0)\<lparr>http := (\<lambda>n k c.
        reply 200 ''OK'' (Some \<lparr>ssh_keys = None, droplet = Some private_droplet\<rparr>))\<rparr>"

text \<open>The draws of \<open>Math.random()\<close> all 0, and all one half.\<close>

definition no_jitter :: "nat \<Rightarrow> real" where
  "no_jitter i = 0"

definition half_jitter :: "nat \<Rightarrow> real" where
  "half_jitter i = 1 / 2"


section \<open>Sendings of a request\<close>

text \<open>\<open>got\<close> sends the request of a call at least once and at most three times.\<close>

lemma send_bounds: "k < snd (send answers m k left) \<and> snd (send answers m k left) \<le> Suc (k + left)"
proof (induction left arbitrary: k)
  case 0
  show ?case by simp
next
  case (Suc left)
  from Suc [of "Suc k"] show ?case by auto
qed

lemma sends_bounds: "1 \<le> sends R n c \<and> sends R n c \<le> 3"
  using send_bounds [of 0 "\<lambda>k. http R n k c" "http_method c" 2] by (simp add: sends_def)

lemma send_succeeded:
  "answers k = HttpResponse r \<Longrightarrow> succeeded r \<Longrightarrow> send answers m k left = (Inr r, Suc k)"
  by (cases left) simp_all

lemma got_succeeded:
  "http R n 0 c = HttpResponse r \<Longrightarrow> succeeded r \<Longrightarrow> got R n c = Inr r \<and> sends R n c = 1"
  by (simp add: got_def sends_def send_succeeded)

section \<open>The main error\<close>

lemma mainError_from_cases:
  "mainError_from xs counts cur k = Some m \<Longrightarrow> m \<in> set xs \<or> cur = Some m"
proof (induction xs arbitrary: counts cur k)
  case Nil
  then show ?case by simp
next
  case (Cons x xs)
  then show ?case by (fastforce simp: Let_def split: if_splits)
qed

lemma mainError_from_Some:
  "(cur = None \<longrightarrow> k = 0) \<Longrightarrow> xs \<noteq> [] \<or> cur \<noteq> None \<Longrightarrow>
   mainError_from xs counts cur k \<noteq> None"
proof (induction xs arbitrary: counts cur k)
  case Nil
  then show ?case by simp
next
  case (Cons x xs)
  show ?case
  proof (cases "k \<le> counts (message x) + 1")
    case True
    then show ?thesis using Cons.IH [of "Some x"] by (simp add: Let_def)
  next
    case False
    with Cons.prems have "cur \<noteq> None" by auto
    with False show ?thesis using Cons.IH [of cur k] Cons.prems by (simp add: Let_def)
  qed
qed

lemma mainError_Some: "xs \<noteq> [] \<Longrightarrow> \<exists>m. mainError xs = Some m \<and> m \<in> set xs"
proof -
  assume "xs \<noteq> []"
  then have "mainError_from xs (\<lambda>m. 0) None 0 \<noteq> None"
    by (intro mainError_from_Some) simp_all
  then obtain m where m: "mainError_from xs (\<lambda>m. 0) None 0 = Some m" by auto
  from mainError_from_cases [OF this] m show ?thesis by (auto simp: mainError_def)
qed

lemma mainError_same:
  assumes "mainError xs = Some m" and "\<forall>x \<in> set xs. x = e"
  shows "m = e"
proof -
  from assms(1) have "m \<in> set xs"
    using mainError_from_cases [of xs "\<lambda>m. 0" None 0 m] by (simp add: mainError_def)
  with assms(2) show ?thesis by blast
qed

section \<open>The retry loop\<close>

text \<open>
  An attempt that makes exactly one call \<open>c\<close>, never sleeps, and returns or throws
  according to the answer to that call (\<open>pv\<close> and \<open>ev\<close> of the number of calls issued
  before it): what \<open>retry_loop\<close> does with it, for a schedule \<open>ts\<close>.
\<close>

lemma retry_loop_ready:
  assumes step: "\<And>s. calls (snd (fn s)) = calls s @ [c] \<and> sleeps (snd (fn s)) = sleeps s"
    and ok: "\<And>s. \<forall>v. pv (length (calls s)) = Some v \<longrightarrow> fst (fn s) = Return v"
    and bad: "\<And>s. pv (length (calls s)) = None \<longrightarrow> fst (fn s) = Throw (ev (length (calls s)))"
  shows "k \<le> length ts \<Longrightarrow> (\<forall>j<k. pv (length (calls s) + j) = None) \<Longrightarrow>
         pv (length (calls s) + k) = Some v \<Longrightarrow>
         fst (retry_loop fn ts errs s) = Return v \<and>
         calls (snd (retry_loop fn ts errs s)) = calls s @ replicate (Suc k) c \<and>
         sleeps (snd (retry_loop fn ts errs s)) = sleeps s @ take k ts"
proof (induction ts arbitrary: k s errs)
  case Nil
  then have "pv (length (calls s)) = Some v" by simp
  from ok[rule_format, OF this] step[of s] Nil show ?case
    by (cases "fn s") (auto)
next
  case (Cons t ts)
  show ?case
  proof (cases k)
    case 0
    with Cons.prems have "pv (length (calls s)) = Some v" by simp
    from ok[rule_format, OF this] step[of s] 0 show ?thesis
      by (cases "fn s") (auto)
  next
    case (Suc k')
    with Cons.prems have none: "pv (length (calls s)) = None" by force
    from bad[rule_format, OF this] obtain e s' where fs: "fn s = (Throw e, s')"
      by (cases "fn s") auto
    with step[of s] have s': "calls s' = calls s @ [c]" "sleeps s' = sleeps s" by auto
    let ?s = "sleep t s'"
    have cs: "calls ?s = calls s @ [c]" "sleeps ?s = sleeps s @ [t]"
      using s' by (simp_all add: sleep_def)
    have a: "k' \<le> length ts" using Cons.prems Suc by simp
    have b: "\<forall>j<k'. pv (length (calls ?s) + j) = None"
      using Cons.prems(2) Suc cs by (auto simp: less_Suc_eq_0_disj)
    have c: "pv (length (calls ?s) + k') = Some v"
      using Cons.prems(3) Suc cs by simp
    from Cons.IH[OF a b c, of "errs @ [e]"] show ?thesis
      using fs cs Suc by (simp add: replicate_app_Cons_same)
  qed
qed

lemma retry_loop_exhausted:
  assumes step: "\<And>s. calls (snd (fn s)) = calls s @ [c] \<and> sleeps (snd (fn s)) = sleeps s"
    and bad: "\<And>s. pv (length (calls s)) = None \<longrightarrow> fst (fn s) = Throw (ev (length (calls s)))"
  shows "(\<forall>j\<le>length ts. pv (length (calls s) + j) = None) \<Longrightarrow>
         (\<exists>e. fst (retry_loop fn ts errs s) = Throw e \<and>
              mainError (errs @ map (\<lambda>j. ev (length (calls s) + j)) [0..<Suc (length ts)])
                = Some e) \<and>
         calls (snd (retry_loop fn ts errs s)) = calls s @ replicate (Suc (length ts)) c \<and>
         sleeps (snd (retry_loop fn ts errs s)) = sleeps s @ ts"
proof (induction ts arbitrary: s errs)
  case Nil
  let ?n = "length (calls s)"
  from Nil have "pv ?n = None" by simp
  from bad[rule_format, OF this] obtain s' where fs: "fn s = (Throw (ev ?n), s')"
    by (cases "fn s") auto
  from mainError_Some [of "errs @ [ev ?n]"] obtain m where
    m: "mainError (errs @ [ev ?n]) = Some m" by auto
  from fs m step[of s] show ?case by simp
next
  case (Cons t ts)
  let ?n = "length (calls s)"
  from Cons.prems have none: "pv ?n = None" by force
  from bad[rule_format, OF this] obtain s' where fs: "fn s = (Throw (ev ?n), s')"
    by (cases "fn s") auto
  with step[of s] have s': "calls s' = calls s @ [c]" "sleeps s' = sleeps s" by auto
  let ?s = "sleep t s'"
  have cs: "calls ?s = calls s @ [c]" "sleeps ?s = sleeps s @ [t]"
    using s' by (simp_all add: sleep_def)
  have b: "\<forall>j\<le>length ts. pv (length (calls ?s) + j) = None"
  proof (intro allI impI)
    fix j assume "j \<le> length ts"
    then have "Suc j \<le> length (t # ts)" by simp
    with Cons.prems have "pv (?n + Suc j) = None" by blast
    then show "pv (length (calls ?s) + j) = None" using cs by simp
  qed
  have "map (\<lambda>j. ev (?n + j)) [0..<Suc (Suc (length ts))] =
      ev (?n + 0) # map (\<lambda>j. ev (?n + Suc j)) [0..<Suc (length ts)]"
    by (rule map_upt_Suc)
  then have l: "errs @ map (\<lambda>j. ev (?n + j)) [0..<Suc (length (t # ts))] =
      (errs @ [ev ?n]) @ map (\<lambda>j. ev (length (calls ?s) + j)) [0..<Suc (length ts)]"
    using cs by (simp del: upt_Suc)
  from Cons.IH[OF b, of "errs @ [ev ?n]"] obtain e where
    e: "fst (retry_loop fn ts (errs @ [ev ?n]) ?s) = Throw e"
      "mainError ((errs @ [ev ?n]) @ map (\<lambda>j. ev (length (calls ?s) + j)) [0..<Suc (length ts)])
         = Some e"
    and r: "calls (snd (retry_loop fn ts (errs @ [ev ?n]) ?s)) =
         calls ?s @ replicate (Suc (length ts)) c"
      "sleeps (snd (retry_loop fn ts (errs @ [ev ?n]) ?s)) = sleeps ?s @ ts"
    by blast
  have "\<exists>e. fst (retry_loop fn (t # ts) errs s) = Throw e \<and>
      mainError (errs @ map (\<lambda>j. ev (?n + j)) [0..<Suc (length (t # ts))]) = Some e"
    unfolding l using e fs by (intro exI [of _ e]) simp
  moreover have "calls (snd (retry_loop fn (t # ts) errs s)) =
      calls s @ replicate (Suc (length (t # ts))) c"
    using r fs cs by (simp add: replicate_app_Cons_same)
  moreover have "sleeps (snd (retry_loop fn (t # ts) errs s)) = sleeps s @ t # ts"
    using r fs cs by simp
  ultimately show ?case by blast
qed

lemma retry_loop_trace:
  assumes step: "\<And>s. calls (snd (fn s)) = calls s @ [c] \<and> sleeps (snd (fn s)) = sleeps s"
  shows "\<exists>m\<le>length ts. calls (snd (retry_loop fn ts errs s)) = calls s @ replicate (Suc m) c \<and>
           sleeps (snd (retry_loop fn ts errs s)) = sleeps s @ take m ts"
proof (induction ts arbitrary: s errs)
  case Nil
  from step[of s] show ?case
    by (cases "fn s"; cases "fst (fn s)") auto
next
  case (Cons t ts)
  show ?case
  proof (cases "fst (fn s)")
    case (Throw e)
    then obtain s' where fs: "fn s = (Throw e, s')" by (cases "fn s") auto
    with step[of s] have s': "calls s' = calls s @ [c]" "sleeps s' = sleeps s" by auto
    let ?s = "sleep t s'"
    have cs: "calls ?s = calls s @ [c]" "sleeps ?s = sleeps s @ [t]"
      using s' by (simp_all add: sleep_def)
    from Cons.IH[of "errs @ [e]" ?s] obtain m where
      m: "m \<le> length ts"
      "calls (snd (retry_loop fn ts (errs @ [e]) ?s)) = calls ?s @ replicate (Suc m) c"
      "sleeps (snd (retry_loop fn ts (errs @ [e]) ?s)) = sleeps ?s @ take m ts"
      by blast
    show ?thesis
      by (rule exI[of _ "Suc m"]) (use m fs cs in \<open>simp add: replicate_app_Cons_same\<close>)
  next
    case (Return v)
    then obtain s' where fs: "fn s = (Return v, s')" by (cases "fn s") auto
    with step[of s] show ?thesis by (intro exI[of _ 0]) auto
  next
    case (Exit n)
    then obtain s' where fs: "fn s = (Exit n, s')" by (cases "fn s") auto
    with step[of s] show ?thesis by (intro exI[of _ 0]) auto
  qed
qed

lemma retry_loop_return:
  assumes step: "\<And>s. calls (snd (fn s)) = calls s @ [c] \<and> sleeps (snd (fn s)) = sleeps s"
    and ok: "\<And>s. \<forall>v. pv (length (calls s)) = Some v \<longrightarrow> fst (fn s) = Return v"
    and bad: "\<And>s. pv (length (calls s)) = None \<longrightarrow> fst (fn s) = Throw (ev (length (calls s)))"
  shows "fst (retry_loop fn ts errs s) = Return v \<Longrightarrow>
         \<exists>j\<le>length ts. pv (length (calls s) + j) = Some v"
proof (induction ts arbitrary: s errs)
  case Nil
  show ?case
  proof (cases "pv (length (calls s))")
    case None
    from bad[rule_format, OF this] obtain e s' where "fn s = (Throw e, s')" by (cases "fn s") auto
    with Nil show ?thesis by simp
  next
    case (Some w)
    from ok[rule_format, OF this] obtain s' where "fn s = (Return w, s')" by (cases "fn s") auto
    with Nil Some show ?thesis by simp
  qed
next
  case (Cons t ts)
  show ?case
  proof (cases "pv (length (calls s))")
    case None
    from bad[rule_format, OF this] obtain e s' where fs: "fn s = (Throw e, s')" by (cases "fn s") auto
    with step[of s] have cs: "calls (sleep t s') = calls s @ [c]" by (simp add: sleep_def)
    from Cons.prems fs have "fst (retry_loop fn ts (errs @ [e]) (sleep t s')) = Return v"
      by simp
    from Cons.IH[OF this] obtain j where "j \<le> length ts"
      "pv (length (calls (sleep t s')) + j) = Some v" by blast
    then show ?thesis using cs by (intro exI[of _ "Suc j"]) simp
  next
    case (Some w)
    from ok[rule_format, OF this] obtain s' where "fn s = (Return w, s')" by (cases "fn s") auto
    with Cons.prems Some show ?thesis by (intro exI[of _ 0]) simp
  qed
qed

lemma retry_loop_delays:
  assumes step: "\<And>s. calls (snd (fn s)) = calls s @ [c] \<and> sleeps (snd (fn s)) = sleeps s"
  shows "\<exists>ds. sleeps (snd (retry_loop fn ts errs s)) = sleeps s @ ds \<and>
           calls (snd (retry_loop fn ts errs s)) = calls s @ replicate (Suc (length ds)) c \<and>
           length ds \<le> length ts \<and> (\<forall>j<length ds. ds ! j = ts ! j)"
proof -
  from retry_loop_trace [where fn = fn and c = c and ts = ts and errs = errs and s = s, OF step] obtain m where
    m: "m \<le> length ts"
    "calls (snd (retry_loop fn ts errs s)) = calls s @ replicate (Suc m) c"
    "sleeps (snd (retry_loop fn ts errs s)) = sleeps s @ take m ts"
    by blast
  show ?thesis
    by (rule exI [of _ "take m ts"]) (use m in simp)
qed

section \<open>The three attempts\<close>

text \<open>
  Each of the three functions handed to \<open>retry\<close> makes one call and decides on its
  answer alone.
\<close>

lemmas prog_defs = await_def sdk_def issue_def console_log_def console_error_def

lemma droplet_attempt_step:
  "calls (snd (provisionDigitalOceanDroplet_attempt R client (JNum i) s)) =
     calls s @ [GET (DropletUrl (JNum i)) (headers client)] \<and>
   sleeps (snd (provisionDigitalOceanDroplet_attempt R client (JNum i) s)) = sleeps s"
  by (simp add: provisionDigitalOceanDroplet_attempt_def dropletInfo_def makeRequest_def
      prog_defs Let_def split: sum.split option.split list.split)

lemma droplet_attempt_ok:
  "\<forall>v. droplet_ip (got R (length (calls s)) (GET (DropletUrl (JNum i)) (headers client))) = Some v \<longrightarrow>
   fst (provisionDigitalOceanDroplet_attempt R client (JNum i) s) = Return v"
  by (auto simp: provisionDigitalOceanDroplet_attempt_def dropletInfo_def makeRequest_def
      prog_defs Let_def droplet_ip_def described_droplet_def droplet_addresses_def
      split: sum.splits option.splits list.splits)

lemma droplet_attempt_bad:
  "droplet_ip (got R (length (calls s)) (GET (DropletUrl (JNum i)) (headers client))) = None \<longrightarrow>
   fst (provisionDigitalOceanDroplet_attempt R client (JNum i) s) =
     Throw (droplet_attempt_error
              (got R (length (calls s)) (GET (DropletUrl (JNum i)) (headers client))))"
  by (auto simp: provisionDigitalOceanDroplet_attempt_def dropletInfo_def makeRequest_def
      prog_defs Let_def droplet_ip_def described_droplet_def droplet_addresses_def
      droplet_attempt_error_def
      split: sum.splits option.splits list.splits)

lemma instance_attempt_step:
  "calls (snd (provisionAWSInstance_attempt R (JStr i) s)) =
     calls s @ [DescribeInstances \<lparr>InstanceIds = [JStr i]\<rparr>] \<and>
   sleeps (snd (provisionAWSInstance_attempt R (JStr i) s)) = sleeps s"
  by (simp add: provisionAWSInstance_attempt_def instanceInfo_def
      prog_defs Let_def split: sum.split option.split list.split)

lemma instance_attempt_ok:
  "\<forall>v. instance_ip (describeInstances R (length (calls s)) \<lparr>InstanceIds = [JStr i]\<rparr>) = Some v \<longrightarrow>
   fst (provisionAWSInstance_attempt R (JStr i) s) = Return v"
  by (auto simp: provisionAWSInstance_attempt_def instanceInfo_def
      prog_defs Let_def instance_ip_def described_instance_def instance_addresses_def
      split: sum.splits option.splits list.splits if_splits)

lemma instance_attempt_bad:
  "instance_ip (describeInstances R (length (calls s)) \<lparr>InstanceIds = [JStr i]\<rparr>) = None \<longrightarrow>
   fst (provisionAWSInstance_attempt R (JStr i) s) =
     Throw (instance_attempt_error
              (describeInstances R (length (calls s)) \<lparr>InstanceIds = [JStr i]\<rparr>))"
  by (auto simp: provisionAWSInstance_attempt_def instanceInfo_def
      prog_defs Let_def instance_ip_def described_instance_def instance_addresses_def
      instance_attempt_error_def
      split: sum.splits option.splits list.splits if_splits)

lemma delete_attempt_step:
  "calls (snd (deleteInstance_attempt R \<lparr>InstanceIds = [JStr i]\<rparr> s)) =
     calls s @ [TerminateInstances \<lparr>InstanceIds = [JStr i]\<rparr>] \<and>
   sleeps (snd (deleteInstance_attempt R \<lparr>InstanceIds = [JStr i]\<rparr> s)) = sleeps s"
  by (simp add: deleteInstance_attempt_def
      prog_defs Let_def split: sum.split option.split list.split)

lemma delete_attempt_ok:
  "\<forall>v. terminal_state (terminateInstances R (length (calls s)) \<lparr>InstanceIds = [JStr i]\<rparr>) = Some v \<longrightarrow>
   fst (deleteInstance_attempt R \<lparr>InstanceIds = [JStr i]\<rparr> s) = Return v"
  by (auto simp: deleteInstance_attempt_def
      prog_defs Let_def terminal_state_def reported_state_def
      split: sum.splits option.splits list.splits if_splits)

lemma delete_attempt_bad:
  "terminal_state (terminateInstances R (length (calls s)) \<lparr>InstanceIds = [JStr i]\<rparr>) = None \<longrightarrow>
   fst (deleteInstance_attempt R \<lparr>InstanceIds = [JStr i]\<rparr> s) =
     Throw (termination_attempt_error
              (terminateInstances R (length (calls s)) \<lparr>InstanceIds = [JStr i]\<rparr>))"
  by (auto simp: deleteInstance_attempt_def
      prog_defs Let_def terminal_state_def reported_state_def termination_attempt_error_def
      split: sum.splits option.splits list.splits if_splits)

lemma length_timeouts: "length (timeouts opts rnd) = retries opts"
  by (simp add: timeouts_def)

lemma retry_provision: "retry fn provision_options rnd s = retry_loop fn (timeouts provision_options rnd) [] s"
  by (simp add: retry_def provision_options_def)

lemma retry_delete: "retry fn deleteInstance_options rnd s = retry_loop fn (timeouts deleteInstance_options rnd) [] s"
  by (simp add: retry_def deleteInstance_options_def)

section \<open>The delay schedule\<close>

text \<open>
  With draws in \<open>[0, 1)\<close> the factor \<open>random\<close> lies in \<open>[1, 2)\<close>: the delay before retry
  \<open>i\<close> of a poll for an address lies between \<open>3000 * 2 ^ i\<close> and \<open>6000 * 2 ^ i\<close>
  milliseconds, so the schedule is sorted as it is computed; every delay of the
  termination poll is capped at 3000 and is at least 1000.
\<close>

lemma round_js_bounds:
  assumes "of_nat lo \<le> x" and "x < of_nat hi"
  shows "lo \<le> round_js x \<and> round_js x \<le> hi"
proof -
  have "int lo \<le> \<lfloor>x + 1 / 2\<rfloor>"
    using assms(1) by (simp add: le_floor_iff)
  moreover have "\<lfloor>x + 1 / 2\<rfloor> \<le> int hi"
    using assms(2) by (simp add: floor_le_iff)
  ultimately show ?thesis unfolding round_js_def by linarith
qed

lemma scaled_bounds:
  fixes d :: real
  assumes "0 \<le> d" and "d < 1"
  shows "of_nat (m * 2 ^ i) \<le> (d + 1) * of_nat m * 2 ^ i"
    and "0 < m \<Longrightarrow> (d + 1) * of_nat m * 2 ^ i < of_nat (2 * m * 2 ^ i)"
proof -
  let ?c = "of_nat m * 2 ^ i :: real"
  have c0: "0 \<le> ?c" by simp
  have "1 * ?c \<le> (d + 1) * ?c"
    by (rule mult_right_mono) (use assms c0 in simp_all)
  then show "of_nat (m * 2 ^ i) \<le> (d + 1) * of_nat m * 2 ^ i"
    by (simp add: mult.assoc)
  assume "0 < m"
  then have cp: "0 < ?c" by simp
  have "(d + 1) * ?c < 2 * ?c"
    by (rule mult_strict_right_mono) (use assms cp in simp_all)
  then show "(d + 1) * of_nat m * 2 ^ i < of_nat (2 * m * 2 ^ i)"
    by (simp add: mult.assoc)
qed

lemma createTimeout_provision:
  assumes "0 \<le> d" and "d < 1"
  shows "3000 * 2 ^ i \<le> createTimeout i provision_options d \<and>
         createTimeout i provision_options d \<le> 6000 * 2 ^ i"
  using round_js_bounds [OF scaled_bounds(1) [OF assms, of 3000 i]
      scaled_bounds(2) [OF assms, of 3000 i]]
  by (simp add: createTimeout_def provision_options_def Let_def)

lemma createTimeout_delete:
  assumes "0 \<le> d" and "d < 1"
  shows "1000 \<le> createTimeout i deleteInstance_options d \<and>
         createTimeout i deleteInstance_options d \<le> 3000"
proof -
  let ?x = "(d + 1) * of_nat 1000 * 2 ^ i"
  have eq: "createTimeout i deleteInstance_options d = min (round_js ?x) 3000"
    by (simp add: createTimeout_def deleteInstance_options_def Let_def)
  have "(1000::nat) \<le> 1000 * 2 ^ i" by simp
  moreover have "1000 * 2 ^ i \<le> round_js ?x"
    using round_js_bounds [OF scaled_bounds(1) [OF assms, of 1000 i]
      scaled_bounds(2) [OF assms, of 1000 i]] by simp
  ultimately have "1000 \<le> round_js ?x" by (rule order_trans)
  then show ?thesis unfolding eq by simp
qed

lemma timeouts_provision_nth:
  assumes "\<forall>i. 0 \<le> rnd i \<and> rnd i < 1" and "i < 10"
  shows "timeouts provision_options rnd ! i = createTimeout i provision_options (rnd i)"
proof -
  let ?f = "\<lambda>i. createTimeout i provision_options (rnd i)"
  have mono: "?f a \<le> ?f b" if "a < b" for a b
  proof -
    have "?f a \<le> 6000 * 2 ^ a"
      using createTimeout_provision [of "rnd a" a] assms(1) by simp
    also have "\<dots> = 3000 * 2 ^ Suc a" by simp
    also have "\<dots> \<le> 3000 * 2 ^ b"
      using that by (intro mult_le_mono2 power_increasing) simp_all
    also have "\<dots> \<le> ?f b"
      using createTimeout_provision [of "rnd b" b] assms(1) by simp
    finally show ?thesis .
  qed
  have "sorted (map ?f [0..<10])"
    by (simp only: sorted_iff_nth_mono_less) (auto intro: mono)
  then have "sort (map ?f [0..<10]) = map ?f [0..<10]"
    by (rule sorted_sort_id)
  then have "timeouts provision_options rnd = map ?f [0..<10]"
    by (simp add: timeouts_def provision_options_def)
  with assms(2) show ?thesis by simp
qed

lemma timeouts_delete_set:
  assumes "\<forall>i. 0 \<le> rnd i \<and> rnd i < 1" and "t \<in> set (timeouts deleteInstance_options rnd)"
  shows "1000 \<le> t \<and> t \<le> 3000"
proof -
  from assms(2) obtain i where "t = createTimeout i deleteInstance_options (rnd i)"
    by (auto simp: timeouts_def)
  with createTimeout_delete [of "rnd i" i] assms(1) show ?thesis by simp
qed

section \<open>The retry loop of the three polls\<close>

lemmas droplet_loop_ready = retry_loop_ready
  [where fn = "provisionDigitalOceanDroplet_attempt R client (JNum i)"
     and c = "droplet_request client i"
     and pv = "\<lambda>n. droplet_ip (got R n (droplet_request client i))"
     and ev = "\<lambda>n. droplet_attempt_error (got R n (droplet_request client i))",
   OF droplet_attempt_step droplet_attempt_ok droplet_attempt_bad] for R client i

lemmas droplet_loop_exhausted = retry_loop_exhausted
  [where fn = "provisionDigitalOceanDroplet_attempt R client (JNum i)"
     and c = "droplet_request client i"
     and pv = "\<lambda>n. droplet_ip (got R n (droplet_request client i))"
     and ev = "\<lambda>n. droplet_attempt_error (got R n (droplet_request client i))",
   OF droplet_attempt_step droplet_attempt_bad] for R client i

lemmas droplet_loop_return = retry_loop_return
  [where fn = "provisionDigitalOceanDroplet_attempt R client (JNum i)"
     and c = "droplet_request client i"
     and pv = "\<lambda>n. droplet_ip (got R n (droplet_request client i))"
     and ev = "\<lambda>n. droplet_attempt_error (got R n (droplet_request client i))",
   OF droplet_attempt_step droplet_attempt_ok droplet_attempt_bad] for R client i

lemmas instance_loop_ready = retry_loop_ready
  [where fn = "provisionAWSInstance_attempt R (JStr i)"
     and c = "DescribeInstances \<lparr>InstanceIds = [JStr i]\<rparr>"
     and pv = "\<lambda>n. instance_ip (describeInstances R n \<lparr>InstanceIds = [JStr i]\<rparr>)"
     and ev = "\<lambda>n. instance_attempt_error (describeInstances R n \<lparr>InstanceIds = [JStr i]\<rparr>)",
   OF instance_attempt_step instance_attempt_ok instance_attempt_bad] for R i

lemmas instance_loop_exhausted = retry_loop_exhausted
  [where fn = "provisionAWSInstance_attempt R (JStr i)"
     and c = "DescribeInstances \<lparr>InstanceIds = [JStr i]\<rparr>"
     and pv = "\<lambda>n. instance_ip (describeInstances R n \<lparr>InstanceIds = [JStr i]\<rparr>)"
     and ev = "\<lambda>n. instance_attempt_error (describeInstances R n \<lparr>InstanceIds = [JStr i]\<rparr>)",
   OF instance_attempt_step instance_attempt_bad] for R i

lemmas instance_loop_return = retry_loop_return
  [where fn = "provisionAWSInstance_attempt R (JStr i)"
     and c = "DescribeInstances \<lparr>InstanceIds = [JStr i]\<rparr>"
     and pv = "\<lambda>n. instance_ip (describeInstances R n \<lparr>InstanceIds = [JStr i]\<rparr>)"
     and ev = "\<lambda>n. instance_attempt_error (describeInstances R n \<lparr>InstanceIds = [JStr i]\<rparr>)",
   OF instance_attempt_step instance_attempt_ok instance_attempt_bad] for R i

lemmas delete_loop_ready = retry_loop_ready
  [where fn = "deleteInstance_attempt R \<lparr>InstanceIds = [JStr i]\<rparr>"
     and c = "TerminateInstances \<lparr>InstanceIds = [JStr i]\<rparr>"
     and pv = "\<lambda>n. terminal_state (terminateInstances R n \<lparr>InstanceIds = [JStr i]\<rparr>)"
     and ev = "\<lambda>n. termination_attempt_error (terminateInstances R n \<lparr>InstanceIds = [JStr i]\<rparr>)",
   OF delete_attempt_step delete_attempt_ok delete_attempt_bad] for R i

lemmas delete_loop_exhausted = retry_loop_exhausted
  [where fn = "deleteInstance_attempt R \<lparr>InstanceIds = [JStr i]\<rparr>"
     and c = "TerminateInstances \<lparr>InstanceIds = [JStr i]\<rparr>"
     and pv = "\<lambda>n. terminal_state (terminateInstances R n \<lparr>InstanceIds = [JStr i]\<rparr>)"
     and ev = "\<lambda>n. termination_attempt_error (terminateInstances R n \<lparr>InstanceIds = [JStr i]\<rparr>)",
   OF delete_attempt_step delete_attempt_bad] for R i

lemma droplet_ip_Some:
  "(droplet_ip a = Some ip) =
     (\<exists>d. described_droplet a = Some d \<and> droplet_addresses d \<noteq> [] \<and>
          hd (droplet_addresses d) = ip)"
  by (auto simp: droplet_ip_def split: option.splits list.splits)

lemma instance_ip_Some:
  "(instance_ip a = Some ip) =
     (\<exists>inst. described_instance a = Some inst \<and> instance_addresses inst = [ip])"
  by (auto simp: instance_ip_def instance_addresses_def split: option.splits list.splits if_splits)

lemma attempt_returns_iff:
  assumes ok: "\<forall>v. x = Some v \<longrightarrow> r = Return v"
    and bad: "x = None \<longrightarrow> r = Throw e"
  shows "(\<exists>v. r = Return v) = (\<exists>v. x = Some v)"
  using assms by (cases x) auto

text \<open>What the stub remotes answer.\<close>

lemma stub_got:
  "got (stub m) n c = settled (stub_http m n 0 c) \<and> sends (stub m) n c = 1"
  by (cases "(m, n, 0::nat, c)" rule: stub_http.cases)
    (simp_all add: got_def sends_def stub_def reply_def succeeded_def numeral_2_eq_2
      retry_methods_def retry_statusCodes_def)

lemma stub_droplet_ip:
  "droplet_ip (got (stub m) n (droplet_request client i)) =
     (if n < m then None else Some ''203.0.113.5'')"
  by (simp add: stub_got reply_def succeeded_def droplet_ip_def described_droplet_def
      droplet_addresses_def)

lemma stub_droplet_error:
  "droplet_attempt_error (got (stub m) n (droplet_request client i)) =
     Error ''Droplet networking not ready...''"
  by (simp add: stub_got reply_def succeeded_def droplet_attempt_error_def)

lemma stub_instance_ip:
  "instance_ip (describeInstances (stub m) n p) =
     (if n < m then None else Some ''198.51.100.7'')"
  by (simp add: stub_def stub_instance_def instance_ip_def described_instance_def
      instance_addresses_def)

lemma stub_instance_error:
  "instance_attempt_error (describeInstances (stub m) n p) =
     Error ''Instance networking not ready...''"
  by (simp add: stub_def stub_instance_def instance_attempt_error_def)

lemma stub_terminal_state:
  "terminal_state (terminateInstances (stub m) n p) =
     (if n < m then None else Some ''terminated'')"
  by (simp add: stub_def terminal_state_def reported_state_def)

lemma stub_termination_error:
  "termination_attempt_error (terminateInstances (stub m) n p) =
     Error ''Still waiting for termination...''"
  by (simp add: stub_def termination_attempt_error_def)

lemma offline_got:
  "got offline n c = Inl ''RequestError: connect ECONNREFUSED 203.0.113.1:443'' \<and>
   sends offline n c = 3"
  by (simp add: got_def sends_def offline_def numeral_2_eq_2 retry_errorCodes_def)

section \<open>Validation of parameters\<close>

text \<open>
  C2, as amended. A call of the DigitalOcean \<open>createDroplet\<close> in which one of the four
  string parameters is empty issues no remote call: it prints the message
  \<open>You must provide non-empty parameters for createDroplet!\<close> and returns \<open>undefined\<close>,
  which is how this client signals a validation error. (The AWS \<open>createInstance\<close> has no
  such check.)
\<close>

theorem createDroplet_empty_parameter:
  assumes "dropletName = '''' \<or> region = '''' \<or> imageName = '''' \<or> sshKeyPairName = ''''"
  shows "createDroplet R this dropletName region imageName sshKeyPairName s =
           (Return None,
            s\<lparr>console := console s @
              [Log [Lit ''You must provide non-empty parameters for createDroplet!'']]\<rparr>)"
  using assms by (simp add: createDroplet_def console_log_def)

theorem createDroplet_empty_parameter_witness:
  "createDroplet (stub 0) (DigitalOceanProvider ''tok'') ''test-1'' '''' ''ubuntu-19-10-x64''
     ''csc519'' init =
   (Return None,
    \<lparr>calls = [],
     console = [Log [Lit ''You must provide non-empty parameters for createDroplet!'']],
     sleeps = []\<rparr>)"
  using createDroplet_empty_parameter
    [of "''test-1''" "''''" "''ubuntu-19-10-x64''" "''csc519''" "stub 0"
        "DigitalOceanProvider ''tok''" init]
  by (simp add: init_def)

text \<open>
  C2 as stated fails for the AWS client: \<open>createInstance\<close> with an empty name issues
  \<open>RunInstances\<close>, tags the instance with the empty name and describes it.
\<close>

theorem createInstance_empty_name_counterexample:
  "calls (snd (createInstance (stub 0) '''' ''us-east-1'' ''ami-0b6b1f8f449568786''
                 ''csc519'' init)) =
     [RunInstances \<lparr>ImageId = ''ami-0b6b1f8f449568786'', InstanceType = ''t2.micro'',
                    KeyName = ''csc519'', MinCount = 1, MaxCount = 1\<rparr>,
      CreateTags \<lparr>Resources = [''i-0555''], Tags = [\<lparr>Key = ''Name'', Value = ''''\<rparr>]\<rparr>,
      DescribeInstances \<lparr>InstanceIds = [JStr ''i-0555'']\<rparr>]"
  by (simp add: createInstance_def instanceInfo_def prog_defs Let_def stub_def
      stub_instance_def init_def)



section \<open>Resolution of the SSH key\<close>



section \<open>The DigitalOcean token\<close>

text \<open>
  C7. When \<open>NCSU_DOTOKEN\<close> is absent or empty, both DigitalOcean commands print the three
  lines that tell the user to define the token and end the process with exit code 1; no
  remote call is issued and nothing else happens. The earlier revision of the script does
  the same before any command handler runs.
\<close>

theorem missing_token_exits:
  assumes "NCSU_DOTOKEN = None \<or> NCSU_DOTOKEN = Some ''''"
  shows "hw0 NCSU_DOTOKEN uuid R rnd (create digitalocean) s =
           (Exit 1, s\<lparr>console := console s @
              [Log [Lit ''NCSU_DOTOKEN is not defined!''],
               Log [Lit ''Please set your environment variables with appropriate token.''],
               Log [Lit ''You may need to refresh your shell in order for your changes to take place.'']]\<rparr>) \<and>
         hw0 NCSU_DOTOKEN uuid R rnd (rm digitalocean i) s =
           (Exit 1, s\<lparr>console := console s @
              [Log [Lit ''NCSU_DOTOKEN is not defined!''],
               Log [Lit ''Please set your environment variables with appropriate token.''],
               Log [Lit ''You may need to refresh your shell in order for your changes to take place.'']]\<rparr>) \<and>
         earlier_hw0 NCSU_DOTOKEN handler s =
           (Exit 1, s\<lparr>console := console s @
              [Log [Lit ''NCSU_DOTOKEN is not defined!''],
               Log [Lit ''Please set your environment variables with appropriate token.''],
               Log [Lit ''You may need to refresh your shell in order for your changes to take place.'']]\<rparr>)"
  using assms
  by (auto simp: provisionDigitalOceanDroplet_def destroyDigitalOceanDroplet_def
      validateDigitalOceanToken_def earlier_hw0_def config_token_check_def
      await_def console_log_def Let_def)

theorem missing_token_exits_witness:
  "hw0 None ''0b7f'' (stub 0) no_jitter (create digitalocean) init =
     (Exit 1, \<lparr>calls = [], console =
        [Log [Lit ''NCSU_DOTOKEN is not defined!''],
               Log [Lit ''Please set your environment variables with appropriate token.''],
               Log [Lit ''You may need to refresh your shell in order for your changes to take place.'']],
        sleeps = []\<rparr>) \<and>
   hw0 (Some '''') ''0b7f'' (stub 0) no_jitter (rm digitalocean (JNum 555)) init =
     (Exit 1, \<lparr>calls = [], console =
        [Log [Lit ''NCSU_DOTOKEN is not defined!''],
               Log [Lit ''Please set your environment variables with appropriate token.''],
               Log [Lit ''You may need to refresh your shell in order for your changes to take place.'']],
        sleeps = []\<rparr>) \<and>
   earlier_hw0 None (deleteDroplet (stub 0) (DigitalOceanProvider '''') (JNum 555)) init =
     (Exit 1, \<lparr>calls = [], console =
        [Log [Lit ''NCSU_DOTOKEN is not defined!''],
               Log [Lit ''Please set your environment variables with appropriate token.''],
               Log [Lit ''You may need to refresh your shell in order for your changes to take place.'']],
        sleeps = []\<rparr>)"
  using missing_token_exits [of None "''0b7f''" "stub 0" no_jitter init "JNum 555"
      "deleteDroplet (stub 0) (DigitalOceanProvider '''') (JNum 555)"]
    missing_token_exits [of "Some ''''" "''0b7f''" "stub 0" no_jitter init "JNum 555"
      "deleteDroplet (stub 0) (DigitalOceanProvider '''') (JNum 555)"]
  by (simp add: init_def)

section \<open>Transport failures of the droplet deletion\<close>

text \<open>
  C8, as amended. When the \<open>got.delete\<close> call of a DigitalOcean \<open>deleteDroplet\<close> is
  rejected (after a network error, or a response with a status outside 2xx), the call
  prints \<open>deleteDroplet: <error>\<close> on the error stream and returns normally: it has made
  that one call of \<open>got\<close> and no other, has not slept, and throws nothing. \<open>hw0.js\<close> does
  not repeat the call, but \<open>got\<close> does repeat the request: it has sent it between one and
  three times, and more than once exactly when the first answer is one \<open>got\<close> sends the
  request again after (a network error of its list, or one of the statuses 408, 429, 500,
  502, 503, 504, or a 413 with a \<open>Retry-After\<close>).
\<close>

theorem deleteDroplet_transport_failure:
  assumes "got R (length (calls s)) (DELETE (DropletUrl (JNum n)) (headers this)) = Inl err"
  shows "deleteDroplet R this (JNum n) s =
           (Return (),
            s\<lparr>calls := calls s @ [DELETE (DropletUrl (JNum n)) (headers this)],
              console := console s @ [ErrorLog [Lit ''deleteDroplet: '', Lit err]]\<rparr>) \<and>
         1 \<le> sends R (length (calls s)) (DELETE (DropletUrl (JNum n)) (headers this)) \<and>
         sends R (length (calls s)) (DELETE (DropletUrl (JNum n)) (headers this)) \<le> 3 \<and>
         (1 < sends R (length (calls s)) (DELETE (DropletUrl (JNum n)) (headers this))) =
           sends_again ''DELETE''
             (http R (length (calls s)) 0 (DELETE (DropletUrl (JNum n)) (headers this)))"
proof -
  let ?c = "DELETE (DropletUrl (JNum n)) (headers this)"
  let ?n = "length (calls s)"
  have a: "deleteDroplet R this (JNum n) s =
           (Return (),
            s\<lparr>calls := calls s @ [?c],
              console := console s @ [ErrorLog [Lit ''deleteDroplet: '', Lit err]]\<rparr>)"
    using assms by (simp add: deleteDroplet_def prog_defs Let_def)
  have b: "(1 < sends R ?n ?c) = sends_again ''DELETE'' (http R ?n 0 ?c)"
    using send_bounds [of 1 "\<lambda>k. http R ?n k ?c" "''DELETE''" 1]
    by (simp add: sends_def numeral_2_eq_2)
  from a b sends_bounds [of R ?n ?c] show ?thesis by simp
qed

theorem deleteDroplet_transport_failure_witness:
  "deleteDroplet offline (DigitalOceanProvider ''tok'') (JNum 555) init =
     (Return (),
      \<lparr>calls = [DELETE (DropletUrl (JNum 555)) (headers (DigitalOceanProvider ''tok''))],
       console = [ErrorLog [Lit ''deleteDroplet: '',
                            Lit ''RequestError: connect ECONNREFUSED 203.0.113.1:443'']],
       sleeps = []\<rparr>) \<and>
   sends offline 0 (DELETE (DropletUrl (JNum 555)) (headers (DigitalOceanProvider ''tok'')))
     \<le> 3"
  using deleteDroplet_transport_failure
    [where R = offline and s = init and n = 555 and this = "DigitalOceanProvider ''tok''"
       and err = "''RequestError: connect ECONNREFUSED 203.0.113.1:443''"]
  by (simp add: offline_got init_def)

text \<open>
  C8 as stated has no retry. When every connection is refused, and when every answer is a
  503, the request of the one \<open>got.delete\<close> call is sent three times before
  \<open>deleteDroplet\<close> prints the failure and returns.
\<close>

theorem deleteDroplet_resent_counterexample:
  "sends offline 0 (DELETE (DropletUrl (JNum 555)) (headers (DigitalOceanProvider ''tok'')))
     = 3 \<and>
   sends unavailable 0 (DELETE (DropletUrl (JNum 555)) (headers (DigitalOceanProvider ''tok'')))
     = 3 \<and>
   fst (deleteDroplet unavailable (DigitalOceanProvider ''tok'') (JNum 555) init) = Return () \<and>
   calls (snd (deleteDroplet unavailable (DigitalOceanProvider ''tok'') (JNum 555) init)) =
     [DELETE (DropletUrl (JNum 555)) (headers (DigitalOceanProvider ''tok''))]"
proof -
  have u: "sends unavailable 0 c = (if http_method c \<in> set retry_methods then 3 else 1)" for c
    by (simp add: sends_def unavailable_def stub_def reply_def succeeded_def numeral_2_eq_2
        retry_statusCodes_def retryAfterStatusCodes_def)
  have g: "\<exists>err. got unavailable 0 c = Inl err" for c
    by (simp add: got_def unavailable_def stub_def reply_def succeeded_def numeral_2_eq_2
        retry_statusCodes_def retryAfterStatusCodes_def)
  from g [of "DELETE (DropletUrl (JNum 555)) (headers (DigitalOceanProvider ''tok''))"]
  obtain err where
    "got unavailable 0 (DELETE (DropletUrl (JNum 555)) (headers (DigitalOceanProvider ''tok'')))
       = Inl err" by blast
  then have d: "fst (deleteDroplet unavailable (DigitalOceanProvider ''tok'') (JNum 555) init) =
      Return () \<and>
    calls (snd (deleteDroplet unavailable (DigitalOceanProvider ''tok'') (JNum 555) init)) =
      [DELETE (DropletUrl (JNum 555)) (headers (DigitalOceanProvider ''tok''))]"
    by (simp add: deleteDroplet_def prog_defs Let_def init_def)
  from u d show ?thesis by (simp add: offline_got retry_methods_def)
qed

section \<open>The region of an EC2 instance\<close>

text \<open>
  C10. \<open>createInstance\<close> never reads its \<open>region\<close> argument: two calls that differ in
  the region only are the same computation, and the first call issued is \<open>RunInstances\<close>
  with the image, the instance type \<open>t2.micro\<close>, the key name and the counts 1 and 1,
  whatever the region.
\<close>

theorem createInstance_ignores_region:
  "createInstance R name region1 imageName sshKeyPairName =
     createInstance R name region2 imageName sshKeyPairName \<and>
   (\<exists>rest. calls (snd (createInstance R name region1 imageName sshKeyPairName s)) =
      calls s @ RunInstances \<lparr>ImageId = imageName, InstanceType = ''t2.micro'',
                  KeyName = sshKeyPairName, MinCount = 1, MaxCount = 1\<rparr> # rest)"
  by (simp add: createInstance_def instanceInfo_def prog_defs Let_def
      split: sum.split option.split list.split)

section \<open>Number of attempts of a poll\<close>

text \<open>
  C1, as amended. \<open>retries\<close> counts the retries that follow the first attempt, so a
  poll makes at most \<open>retries + 1\<close> attempts: 11 for the two polls that wait for an
  address, 51 for the poll that waits for termination. For each of the three polls: when
  the answers to the first \<open>k\<close> attempts are not ready and the answer to the next one is,
  with \<open>k + 1\<close> within that budget, the poll makes exactly \<open>k + 1\<close> calls and returns
  the ready value (the address, or the terminal state); when none of the 11 (51) answers
  is ready, it makes exactly 11 (51) calls and then throws, instead of returning: what it
  throws is the main error of the 11 (51) errors its attempts have thrown, one of them.
\<close>

theorem poll_attempts:
  "(k \<le> 10 \<longrightarrow>
      (\<forall>j<k. droplet_ip (got R (length (calls s) + j) (droplet_request client i)) = None) \<longrightarrow>
      droplet_ip (got R (length (calls s) + k) (droplet_request client i)) = Some ip \<longrightarrow>
      fst (droplet_poll R client i rnd s) = Return ip \<and>
      calls (snd (droplet_poll R client i rnd s)) =
        calls s @ replicate (Suc k) (droplet_request client i)) \<and>
   ((\<forall>j\<le>10. droplet_ip (got R (length (calls s) + j) (droplet_request client i)) = None) \<longrightarrow>
      (\<exists>e. fst (droplet_poll R client i rnd s) = Throw e \<and>
           mainError (map (\<lambda>j. droplet_attempt_error
                                  (got R (length (calls s) + j) (droplet_request client i)))
                        [0..<11]) = Some e) \<and>
      calls (snd (droplet_poll R client i rnd s)) =
        calls s @ replicate 11 (droplet_request client i)) \<and>
   (k \<le> 10 \<longrightarrow>
      (\<forall>j<k. instance_ip (describeInstances R (length (calls s) + j)
                 \<lparr>InstanceIds = [JStr a]\<rparr>) = None) \<longrightarrow>
      instance_ip (describeInstances R (length (calls s) + k)
                 \<lparr>InstanceIds = [JStr a]\<rparr>) = Some ip' \<longrightarrow>
      fst (instance_poll R a rnd s) = Return ip' \<and>
      calls (snd (instance_poll R a rnd s)) =
        calls s @ replicate (Suc k) (DescribeInstances \<lparr>InstanceIds = [JStr a]\<rparr>)) \<and>
   ((\<forall>j\<le>10. instance_ip (describeInstances R (length (calls s) + j)
                 \<lparr>InstanceIds = [JStr a]\<rparr>) = None) \<longrightarrow>
      (\<exists>e. fst (instance_poll R a rnd s) = Throw e \<and>
           mainError (map (\<lambda>j. instance_attempt_error
                                  (describeInstances R (length (calls s) + j)
                                     \<lparr>InstanceIds = [JStr a]\<rparr>))
                        [0..<11]) = Some e) \<and>
      calls (snd (instance_poll R a rnd s)) =
        calls s @ replicate 11 (DescribeInstances \<lparr>InstanceIds = [JStr a]\<rparr>)) \<and>
   (k' \<le> 50 \<longrightarrow>
      (\<forall>j<k'. terminal_state (terminateInstances R (length (calls s) + j)
                 \<lparr>InstanceIds = [JStr b]\<rparr>) = None) \<longrightarrow>
      terminal_state (terminateInstances R (length (calls s) + k')
                 \<lparr>InstanceIds = [JStr b]\<rparr>) = Some st \<longrightarrow>
      fst (termination_poll R b rnd s) = Return st \<and>
      calls (snd (termination_poll R b rnd s)) =
        calls s @ replicate (Suc k') (TerminateInstances \<lparr>InstanceIds = [JStr b]\<rparr>)) \<and>
   ((\<forall>j\<le>50. terminal_state (terminateInstances R (length (calls s) + j)
                 \<lparr>InstanceIds = [JStr b]\<rparr>) = None) \<longrightarrow>
      (\<exists>e. fst (termination_poll R b rnd s) = Throw e \<and>
           mainError (map (\<lambda>j. termination_attempt_error
                                  (terminateInstances R (length (calls s) + j)
                                     \<lparr>InstanceIds = [JStr b]\<rparr>))
                        [0..<51]) = Some e) \<and>
      calls (snd (termination_poll R b rnd s)) =
        calls s @ replicate 51 (TerminateInstances \<lparr>InstanceIds = [JStr b]\<rparr>))"
proof -
  let ?tp = "timeouts provision_options rnd"
  let ?td = "timeouts deleteInstance_options rnd"
  have lp: "length ?tp = 10" by (simp add: length_timeouts provision_options_def)
  have ld: "length ?td = 50" by (simp add: length_timeouts deleteInstance_options_def)
  have sp: "Suc (length ?tp) = 11" using lp by simp
  have sd: "Suc (length ?td) = 51" using ld by simp
  have c1: "k \<le> 10 \<longrightarrow>
      (\<forall>j<k. droplet_ip (got R (length (calls s) + j) (droplet_request client i)) = None) \<longrightarrow>
      droplet_ip (got R (length (calls s) + k) (droplet_request client i)) = Some ip \<longrightarrow>
      fst (droplet_poll R client i rnd s) = Return ip \<and>
      calls (snd (droplet_poll R client i rnd s)) =
        calls s @ replicate (Suc k) (droplet_request client i)"
    unfolding retry_provision
    using droplet_loop_ready [where k = k and ts = ?tp and R = R and s = s and client = client
        and i = i and v = ip and errs = "[]"] lp by simp
  have c2: "(\<forall>j\<le>10. droplet_ip (got R (length (calls s) + j) (droplet_request client i)) = None) \<longrightarrow>
      (\<exists>e. fst (droplet_poll R client i rnd s) = Throw e \<and>
           mainError (map (\<lambda>j. droplet_attempt_error
                                  (got R (length (calls s) + j) (droplet_request client i)))
                        [0..<11]) = Some e) \<and>
      calls (snd (droplet_poll R client i rnd s)) =
        calls s @ replicate 11 (droplet_request client i)"
    unfolding retry_provision
    using droplet_loop_exhausted [where ts = ?tp and R = R and s = s and client = client
        and i = i and errs = "[]", unfolded sp append_Nil, unfolded lp] by blast
  have c3: "k \<le> 10 \<longrightarrow>
      (\<forall>j<k. instance_ip (describeInstances R (length (calls s) + j)
                 \<lparr>InstanceIds = [JStr a]\<rparr>) = None) \<longrightarrow>
      instance_ip (describeInstances R (length (calls s) + k)
                 \<lparr>InstanceIds = [JStr a]\<rparr>) = Some ip' \<longrightarrow>
      fst (instance_poll R a rnd s) = Return ip' \<and>
      calls (snd (instance_poll R a rnd s)) =
        calls s @ replicate (Suc k) (DescribeInstances \<lparr>InstanceIds = [JStr a]\<rparr>)"
    unfolding retry_provision
    using instance_loop_ready [where k = k and ts = ?tp and R = R and s = s and i = a
        and v = ip' and errs = "[]"] lp by simp
  have c4: "(\<forall>j\<le>10. instance_ip (describeInstances R (length (calls s) + j)
                 \<lparr>InstanceIds = [JStr a]\<rparr>) = None) \<longrightarrow>
      (\<exists>e. fst (instance_poll R a rnd s) = Throw e \<and>
           mainError (map (\<lambda>j. instance_attempt_error
                                  (describeInstances R (length (calls s) + j)
                                     \<lparr>InstanceIds = [JStr a]\<rparr>))
                        [0..<11]) = Some e) \<and>
      calls (snd (instance_poll R a rnd s)) =
        calls s @ replicate 11 (DescribeInstances \<lparr>InstanceIds = [JStr a]\<rparr>)"
    unfolding retry_provision
    using instance_loop_exhausted [where ts = ?tp and R = R and s = s and i = a
        and errs = "[]", unfolded sp append_Nil, unfolded lp] by blast
  have c5: "k' \<le> 50 \<longrightarrow>
      (\<forall>j<k'. terminal_state (terminateInstances R (length (calls s) + j)
                 \<lparr>InstanceIds = [JStr b]\<rparr>) = None) \<longrightarrow>
      terminal_state (terminateInstances R (length (calls s) + k')
                 \<lparr>InstanceIds = [JStr b]\<rparr>) = Some st \<longrightarrow>
      fst (termination_poll R b rnd s) = Return st \<and>
      calls (snd (termination_poll R b rnd s)) =
        calls s @ replicate (Suc k') (TerminateInstances \<lparr>InstanceIds = [JStr b]\<rparr>)"
    unfolding retry_delete
    using delete_loop_ready [where k = k' and ts = ?td and R = R and s = s and i = b
        and v = st and errs = "[]"] ld by simp
  have c6: "(\<forall>j\<le>50. terminal_state (terminateInstances R (length (calls s) + j)
                 \<lparr>InstanceIds = [JStr b]\<rparr>) = None) \<longrightarrow>
      (\<exists>e. fst (termination_poll R b rnd s) = Throw e \<and>
           mainError (map (\<lambda>j. termination_attempt_error
                                  (terminateInstances R (length (calls s) + j)
                                     \<lparr>InstanceIds = [JStr b]\<rparr>))
                        [0..<51]) = Some e) \<and>
      calls (snd (termination_poll R b rnd s)) =
        calls s @ replicate 51 (TerminateInstances \<lparr>InstanceIds = [JStr b]\<rparr>)"
    unfolding retry_delete
    using delete_loop_exhausted [where ts = ?td and R = R and s = s and i = b
        and errs = "[]", unfolded sd append_Nil, unfolded ld] by blast
  from c1 c2 c3 c4 c5 c6 show ?thesis by (intro conjI)
qed

theorem poll_attempts_witness:
  "fst (droplet_poll (stub 2) (DigitalOceanProvider ''tok'') 555 no_jitter init) =
     Return ''203.0.113.5'' \<and>
   calls (snd (droplet_poll (stub 2) (DigitalOceanProvider ''tok'') 555 no_jitter init)) =
     replicate (Suc 2) (droplet_request (DigitalOceanProvider ''tok'') 555) \<and>
   fst (droplet_poll (stub 60) (DigitalOceanProvider ''tok'') 555 no_jitter init) =
     Throw (Error ''Droplet networking not ready...'') \<and>
   calls (snd (droplet_poll (stub 60) (DigitalOceanProvider ''tok'') 555 no_jitter init)) =
     replicate 11 (droplet_request (DigitalOceanProvider ''tok'') 555) \<and>
   fst (instance_poll (stub 2) ''i-0555'' no_jitter init) = Return ''198.51.100.7'' \<and>
   fst (instance_poll (stub 60) ''i-0555'' no_jitter init) =
     Throw (Error ''Instance networking not ready...'') \<and>
   fst (termination_poll (stub 2) ''i-0555'' no_jitter init) = Return ''terminated'' \<and>
   fst (termination_poll (stub 60) ''i-0555'' no_jitter init) =
     Throw (Error ''Still waiting for termination...'') \<and>
   calls (snd (termination_poll (stub 60) ''i-0555'' no_jitter init)) =
     replicate 51 (TerminateInstances \<lparr>InstanceIds = [JStr ''i-0555'']\<rparr>)"
proof -
  note A = poll_attempts [where R = "stub 2" and s = init and k = 2 and k' = 2
      and client = "DigitalOceanProvider ''tok''" and i = 555 and rnd = no_jitter
      and ip = "''203.0.113.5''" and ip' = "''198.51.100.7''" and a = "''i-0555''"
      and b = "''i-0555''" and st = "''terminated''",
      unfolded stub_droplet_ip stub_instance_ip stub_terminal_state]
  note B = poll_attempts [where R = "stub 60" and s = init and k = 2 and k' = 2
      and client = "DigitalOceanProvider ''tok''" and i = 555 and rnd = no_jitter
      and ip = "''203.0.113.5''" and ip' = "''198.51.100.7''" and a = "''i-0555''"
      and b = "''i-0555''" and st = "''terminated''",
      unfolded stub_droplet_ip stub_instance_ip stub_terminal_state
        stub_droplet_error stub_instance_error stub_termination_error]
  have same: "e = x" if "mainError (map (\<lambda>j. x) js) = Some e" for e x :: error and js :: "nat list"
    using mainError_same [OF that] by simp
  from A have a: "fst (droplet_poll (stub 2) (DigitalOceanProvider ''tok'') 555 no_jitter init) =
       Return ''203.0.113.5'' \<and>
     calls (snd (droplet_poll (stub 2) (DigitalOceanProvider ''tok'') 555 no_jitter init)) =
       replicate (Suc 2) (droplet_request (DigitalOceanProvider ''tok'') 555) \<and>
     fst (instance_poll (stub 2) ''i-0555'' no_jitter init) = Return ''198.51.100.7'' \<and>
     fst (termination_poll (stub 2) ''i-0555'' no_jitter init) = Return ''terminated''"
    by (simp add: init_def)
  from B have b: "(\<exists>e. fst (droplet_poll (stub 60) (DigitalOceanProvider ''tok'') 555 no_jitter
                         init) = Throw e \<and>
          mainError (map (\<lambda>j. Error ''Droplet networking not ready...'') [0..<11]) = Some e) \<and>
     calls (snd (droplet_poll (stub 60) (DigitalOceanProvider ''tok'') 555 no_jitter init)) =
       replicate 11 (droplet_request (DigitalOceanProvider ''tok'') 555) \<and>
     (\<exists>e. fst (instance_poll (stub 60) ''i-0555'' no_jitter init) = Throw e \<and>
          mainError (map (\<lambda>j. Error ''Instance networking not ready...'') [0..<11]) = Some e) \<and>
     (\<exists>e. fst (termination_poll (stub 60) ''i-0555'' no_jitter init) = Throw e \<and>
          mainError (map (\<lambda>j. Error ''Still waiting for termination...'') [0..<51]) = Some e) \<and>
     calls (snd (termination_poll (stub 60) ''i-0555'' no_jitter init)) =
       replicate 51 (TerminateInstances \<lparr>InstanceIds = [JStr ''i-0555'']\<rparr>)"
    by (simp add: init_def del: upt_Suc upt_rec_numeral)
  from a b show ?thesis by (auto dest: same)
qed

text \<open>
  C1 as stated gives the polls a budget of 10 and 50 attempts. Against a remote that is
  never ready, the droplet poll makes 11 calls and the termination poll 51.
\<close>

theorem poll_budget_counterexample:
  "length (calls (snd (droplet_poll (stub 60) (DigitalOceanProvider ''tok'') 555 no_jitter
                         init))) = 11 \<and>
   length (calls (snd (termination_poll (stub 60) ''i-0555'' no_jitter init))) = 51"
proof -
  have "length (timeouts provision_options no_jitter) = 10"
    by (simp add: length_timeouts provision_options_def)
  with droplet_loop_exhausted [where ts = "timeouts provision_options no_jitter"
      and R = "stub 60" and s = init and client = "DigitalOceanProvider ''tok''" and i = 555
      and errs = "[]"]
  have a: "length (calls (snd (droplet_poll (stub 60) (DigitalOceanProvider ''tok'') 555
                                 no_jitter init))) = 11"
    unfolding retry_provision stub_droplet_ip by (simp add: init_def del: upt_Suc)
  have "length (timeouts deleteInstance_options no_jitter) = 50"
    by (simp add: length_timeouts deleteInstance_options_def)
  with delete_loop_exhausted [where ts = "timeouts deleteInstance_options no_jitter"
      and R = "stub 60" and s = init and i = "''i-0555''" and errs = "[]"]
  have b: "length (calls (snd (termination_poll (stub 60) ''i-0555'' no_jitter init))) = 51"
    unfolding retry_delete stub_terminal_state by (simp add: init_def del: upt_Suc)
  from a b show ?thesis by simp
qed


section \<open>Delays between attempts\<close>

text \<open>
  C5, as amended. With draws of \<open>Math.random()\<close> in \<open>[0, 1)\<close>, a poll sleeps once
  between two consecutive attempts and not otherwise. In the two polls for an address the
  delay after attempt \<open>j + 1\<close> lies between \<open>3000 * 2 ^ j\<close> and \<open>6000 * 2 ^ j\<close>
  milliseconds: it is at least 3 seconds and doubles from one attempt to the next. In the
  termination poll every delay lies between 1000 and 3000 milliseconds.
\<close>

theorem poll_delays:
  assumes "\<forall>n. 0 \<le> rnd n \<and> rnd n < 1"
  shows "(\<exists>ds. sleeps (snd (droplet_poll R client i rnd s)) = sleeps s @ ds \<and>
            calls (snd (droplet_poll R client i rnd s)) =
              calls s @ replicate (Suc (length ds)) (droplet_request client i) \<and>
            length ds \<le> 10 \<and>
            (\<forall>j<length ds. 3000 * 2 ^ j \<le> ds ! j \<and> ds ! j \<le> 6000 * 2 ^ j)) \<and>
         (\<exists>ds. sleeps (snd (instance_poll R a rnd s)) = sleeps s @ ds \<and>
            calls (snd (instance_poll R a rnd s)) =
              calls s @ replicate (Suc (length ds)) (DescribeInstances \<lparr>InstanceIds = [JStr a]\<rparr>) \<and>
            length ds \<le> 10 \<and>
            (\<forall>j<length ds. 3000 * 2 ^ j \<le> ds ! j \<and> ds ! j \<le> 6000 * 2 ^ j)) \<and>
         (\<exists>ds. sleeps (snd (termination_poll R b rnd s)) = sleeps s @ ds \<and>
            calls (snd (termination_poll R b rnd s)) =
              calls s @ replicate (Suc (length ds)) (TerminateInstances \<lparr>InstanceIds = [JStr b]\<rparr>) \<and>
            length ds \<le> 50 \<and>
            (\<forall>j<length ds. 1000 \<le> ds ! j \<and> ds ! j \<le> 3000))"
proof -
  let ?tp = "timeouts provision_options rnd"
  let ?td = "timeouts deleteInstance_options rnd"
  have lp: "length ?tp = 10" by (simp add: length_timeouts provision_options_def)
  have ld: "length ?td = 50" by (simp add: length_timeouts deleteInstance_options_def)
  have bp: "3000 * 2 ^ j \<le> ?tp ! j \<and> ?tp ! j \<le> 6000 * 2 ^ j" if "j < 10" for j
    using timeouts_provision_nth [OF assms that] createTimeout_provision [of "rnd j" j] assms
    by simp
  have bd: "1000 \<le> ?td ! j \<and> ?td ! j \<le> 3000" if "j < 50" for j
    using timeouts_delete_set [OF assms, of "?td ! j"] that ld by simp
  have prov_case: "\<exists>ds. sleeps (snd (retry_loop fn ?tp [] s)) = sleeps s @ ds \<and>
      calls (snd (retry_loop fn ?tp [] s)) = calls s @ replicate (Suc (length ds)) c \<and>
      length ds \<le> 10 \<and> (\<forall>j<length ds. 3000 * 2 ^ j \<le> ds ! j \<and> ds ! j \<le> 6000 * 2 ^ j)"
    if "\<And>s. calls (snd (fn s)) = calls s @ [c] \<and> sleeps (snd (fn s)) = sleeps s"
    for fn :: "string prog" and c
  proof -
    from retry_loop_delays [where fn = fn and c = c and ts = ?tp and errs = "[]" and s = s, OF that] obtain ds where
      ds: "sleeps (snd (retry_loop fn ?tp [] s)) = sleeps s @ ds"
      "calls (snd (retry_loop fn ?tp [] s)) = calls s @ replicate (Suc (length ds)) c"
      "length ds \<le> length ?tp" "\<forall>j<length ds. ds ! j = ?tp ! j"
      by blast
    have "\<forall>j<length ds. 3000 * 2 ^ j \<le> ds ! j \<and> ds ! j \<le> 6000 * 2 ^ j"
    proof (intro allI impI)
      fix j assume j: "j < length ds"
      with ds(3) lp have "j < 10" by simp
      from bp [OF this] ds(4) j show "3000 * 2 ^ j \<le> ds ! j \<and> ds ! j \<le> 6000 * 2 ^ j"
        by simp
    qed
    with ds lp show ?thesis by auto
  qed
  have term_case: "\<exists>ds. sleeps (snd (retry_loop fn ?td [] s)) = sleeps s @ ds \<and>
      calls (snd (retry_loop fn ?td [] s)) = calls s @ replicate (Suc (length ds)) c \<and>
      length ds \<le> 50 \<and> (\<forall>j<length ds. 1000 \<le> ds ! j \<and> ds ! j \<le> 3000)"
    if "\<And>s. calls (snd (fn s)) = calls s @ [c] \<and> sleeps (snd (fn s)) = sleeps s"
    for fn :: "string prog" and c
  proof -
    from retry_loop_delays [where fn = fn and c = c and ts = ?td and errs = "[]" and s = s, OF that] obtain ds where
      ds: "sleeps (snd (retry_loop fn ?td [] s)) = sleeps s @ ds"
      "calls (snd (retry_loop fn ?td [] s)) = calls s @ replicate (Suc (length ds)) c"
      "length ds \<le> length ?td" "\<forall>j<length ds. ds ! j = ?td ! j"
      by blast
    have "\<forall>j<length ds. 1000 \<le> ds ! j \<and> ds ! j \<le> 3000"
    proof (intro allI impI)
      fix j assume j: "j < length ds"
      with ds(3) ld have "j < 50" by simp
      from bd [OF this] ds(4) j show "1000 \<le> ds ! j \<and> ds ! j \<le> 3000"
        by simp
    qed
    with ds ld show ?thesis by auto
  qed
  show ?thesis
    unfolding retry_provision retry_delete
    by (intro conjI prov_case term_case droplet_attempt_step instance_attempt_step
        delete_attempt_step)
qed

theorem poll_delays_witness:
  "(\<forall>n. 0 \<le> half_jitter n \<and> half_jitter n < 1) \<and>
   (\<exists>ds. sleeps (snd (droplet_poll (stub 60) (DigitalOceanProvider ''tok'') 555 half_jitter
                         init)) = sleeps init @ ds \<and>
      calls (snd (droplet_poll (stub 60) (DigitalOceanProvider ''tok'') 555 half_jitter init)) =
        calls init @ replicate (Suc (length ds))
          (droplet_request (DigitalOceanProvider ''tok'') 555) \<and>
      length ds \<le> 10 \<and>
      (\<forall>j<length ds. 3000 * 2 ^ j \<le> ds ! j \<and> ds ! j \<le> 6000 * 2 ^ j))"
proof -
  have h: "\<forall>n. 0 \<le> half_jitter n \<and> half_jitter n < 1"
    by (simp add: half_jitter_def)
  from poll_delays [OF h, where R = "stub 60" and client = "DigitalOceanProvider ''tok''"
      and i = 555 and s = init]
  show ?thesis using h by blast
qed

text \<open>
  C5 as stated has exactly 3 seconds between the attempts of a create poll. With every
  draw of \<open>Math.random()\<close> equal to 0, the smallest delays there are, the second delay
  of the droplet poll is 6 seconds.
\<close>

theorem create_poll_delays_counterexample:
  "sleeps (snd (droplet_poll (stub 60) (DigitalOceanProvider ''tok'') 555 no_jitter init)) ! 1
     = 6000"
proof -
  let ?ts = "timeouts provision_options no_jitter"
  have l: "length ?ts = 10" by (simp add: length_timeouts provision_options_def)
  have n: "\<forall>n. 0 \<le> no_jitter n \<and> no_jitter n < 1" by (simp add: no_jitter_def)
  have "?ts ! 1 = createTimeout 1 provision_options (no_jitter 1)"
    by (rule timeouts_provision_nth [OF n]) simp
  also have "\<dots> = 6000"
    by (simp add: createTimeout_def provision_options_def round_js_def no_jitter_def)
  finally have t: "?ts ! 1 = 6000" .
  from droplet_loop_exhausted [where ts = ?ts
      and R = "stub 60" and s = init and client = "DigitalOceanProvider ''tok''" and i = 555
      and errs = "[]"] l
  have "sleeps (snd (droplet_poll (stub 60) (DigitalOceanProvider ''tok'') 555 no_jitter init))
      = ?ts"
    unfolding retry_provision stub_droplet_ip by (simp add: init_def)
  with t show ?thesis by simp
qed

section \<open>The readiness of a created instance\<close>

text \<open>
  C6, as amended. An attempt of a create poll returns exactly when the descriptor it was
  answered carries at least one IPv4 address: a droplet with a non-empty \<open>networks.v4\<close>,
  whatever the type of its entries, public or private; an instance with a non-empty
  \<open>PublicIpAddress\<close>. Otherwise the attempt throws, and the poll goes on or gives up: when
  a create poll returns an address, one of its at most 11 attempts was answered a descriptor
  that carries this address, as the first entry of \<open>networks.v4\<close> or as
  \<open>PublicIpAddress\<close>.
\<close>

theorem readiness_is_address:
  "((\<exists>ip. fst (provisionDigitalOceanDroplet_attempt R client (JNum i) s) = Return ip) =
      (\<exists>d. described_droplet (got R (length (calls s)) (droplet_request client i)) = Some d \<and>
           droplet_addresses d \<noteq> [])) \<and>
   ((\<exists>ip. fst (provisionAWSInstance_attempt R (JStr a) s) = Return ip) =
      (\<exists>inst. described_instance (describeInstances R (length (calls s))
                  \<lparr>InstanceIds = [JStr a]\<rparr>) = Some inst \<and>
           instance_addresses inst \<noteq> [])) \<and>
   (fst (droplet_poll R client i rnd s) = Return ip \<longrightarrow>
      (\<exists>j\<le>10. \<exists>d. described_droplet (got R (length (calls s) + j)
                        (droplet_request client i)) = Some d \<and>
           droplet_addresses d \<noteq> [] \<and> hd (droplet_addresses d) = ip)) \<and>
   (fst (instance_poll R b rnd s) = Return ip' \<longrightarrow>
      (\<exists>j\<le>10. \<exists>inst. described_instance (describeInstances R (length (calls s) + j)
                           \<lparr>InstanceIds = [JStr b]\<rparr>) = Some inst \<and>
           instance_addresses inst = [ip']))"
proof -
  let ?tp = "timeouts provision_options rnd"
  have lp: "length ?tp = 10" by (simp add: length_timeouts provision_options_def)
  have a1: "(\<exists>ip. fst (provisionDigitalOceanDroplet_attempt R client (JNum i) s) = Return ip) =
      (\<exists>d. described_droplet (got R (length (calls s)) (droplet_request client i)) = Some d \<and>
           droplet_addresses d \<noteq> [])"
    unfolding attempt_returns_iff [OF droplet_attempt_ok droplet_attempt_bad] droplet_ip_Some
    by blast
  have a2: "(\<exists>ip. fst (provisionAWSInstance_attempt R (JStr a) s) = Return ip) =
      (\<exists>inst. described_instance (describeInstances R (length (calls s))
                  \<lparr>InstanceIds = [JStr a]\<rparr>) = Some inst \<and>
           instance_addresses inst \<noteq> [])"
    unfolding attempt_returns_iff [OF instance_attempt_ok instance_attempt_bad]
    by (auto simp: instance_ip_def split: option.splits list.splits)
  have a3: "fst (droplet_poll R client i rnd s) = Return ip \<longrightarrow>
      (\<exists>j\<le>10. \<exists>d. described_droplet (got R (length (calls s) + j)
                        (droplet_request client i)) = Some d \<and>
           droplet_addresses d \<noteq> [] \<and> hd (droplet_addresses d) = ip)"
    unfolding retry_provision
    using droplet_loop_return [where ts = ?tp and errs = "[]" and s = s and v = ip
        and R = R and client = client and i = i] lp
    by (simp add: droplet_ip_Some)
  have a4: "fst (instance_poll R b rnd s) = Return ip' \<longrightarrow>
      (\<exists>j\<le>10. \<exists>inst. described_instance (describeInstances R (length (calls s) + j)
                           \<lparr>InstanceIds = [JStr b]\<rparr>) = Some inst \<and>
           instance_addresses inst = [ip'])"
    unfolding retry_provision
    using instance_loop_return [where ts = ?tp and errs = "[]" and s = s and v = ip'
        and R = R and i = b] lp
    by (simp add: instance_ip_Some)
  from a1 a2 a3 a4 show ?thesis by (intro conjI)
qed

theorem readiness_is_address_witness:
  "fst (droplet_poll (stub 2) (DigitalOceanProvider ''tok'') 555 no_jitter init) =
     Return ''203.0.113.5'' \<and>
   (\<exists>j\<le>10. \<exists>d. described_droplet (got (stub 2) (length (calls init) + j)
                     (droplet_request (DigitalOceanProvider ''tok'') 555)) = Some d \<and>
        droplet_addresses d \<noteq> [] \<and> hd (droplet_addresses d) = ''203.0.113.5'')"
proof -
  have "length (timeouts provision_options no_jitter) = 10"
    by (simp add: length_timeouts provision_options_def)
  with droplet_loop_ready [where ts = "timeouts provision_options no_jitter" and k = 2
      and R = "stub 2" and s = init and client = "DigitalOceanProvider ''tok''" and i = 555
      and errs = "[]" and v = "''203.0.113.5''"]
  have r: "fst (droplet_poll (stub 2) (DigitalOceanProvider ''tok'') 555 no_jitter init) =
     Return ''203.0.113.5''"
    unfolding retry_provision stub_droplet_ip by (simp add: init_def)
  with readiness_is_address [where R = "stub 2" and s = init and rnd = no_jitter
      and client = "DigitalOceanProvider ''tok''" and i = 555 and ip = "''203.0.113.5''"]
  show ?thesis by blast
qed

text \<open>
  C6 as stated asks for a public address. The droplet of \<open>private_only\<close> has one entry in
  \<open>networks.v4\<close>, of type \<open>private\<close>, and so no public address; the first attempt of the
  poll returns the private address and the poll ends.
\<close>

theorem private_address_counterexample:
  "described_droplet (got private_only 0 (droplet_request (DigitalOceanProvider ''tok'') 555)) =
     Some private_droplet \<and>
   public_addresses private_droplet = [] \<and>
   fst (provisionDigitalOceanDroplet_attempt private_only (DigitalOceanProvider ''tok'')
          (JNum 555) init) = Return ''10.0.0.2'' \<and>
   fst (droplet_poll private_only (DigitalOceanProvider ''tok'') 555 no_jitter init) =
     Return ''10.0.0.2'' \<and>
   calls (snd (droplet_poll private_only (DigitalOceanProvider ''tok'') 555 no_jitter init)) =
     [droplet_request (DigitalOceanProvider ''tok'') 555]"
proof -
  let ?c = "droplet_request (DigitalOceanProvider ''tok'') 555"
  have g: "got private_only n ?c =
      Inr \<lparr>statusCode = 200, statusMessage = ''OK'', retry_after = None,
           body = Some \<lparr>ssh_keys = None, droplet = Some private_droplet\<rparr>\<rparr>" for n
    by (simp add: got_def private_only_def stub_def reply_def succeeded_def numeral_2_eq_2)
  have d: "described_droplet (got private_only 0 ?c) = Some private_droplet"
    by (simp add: g described_droplet_def)
  have p: "public_addresses private_droplet = []"
    by (simp add: public_addresses_def private_droplet_def)
  have ip: "droplet_ip (got private_only n ?c) = Some ''10.0.0.2''" for n
    by (simp add: g droplet_ip_def described_droplet_def droplet_addresses_def
        private_droplet_def)
  from droplet_attempt_ok [of private_only init 555 "DigitalOceanProvider ''tok''"] ip
  have a: "fst (provisionDigitalOceanDroplet_attempt private_only (DigitalOceanProvider ''tok'')
          (JNum 555) init) = Return ''10.0.0.2''"
    by simp
  from droplet_loop_ready [where ts = "timeouts provision_options no_jitter" and k = 0
      and R = private_only and s = init and client = "DigitalOceanProvider ''tok''" and i = 555
      and errs = "[]" and v = "''10.0.0.2''"] ip
  have l: "fst (droplet_poll private_only (DigitalOceanProvider ''tok'') 555 no_jitter init) =
       Return ''10.0.0.2'' \<and>
     calls (snd (droplet_poll private_only (DigitalOceanProvider ''tok'') 555 no_jitter init)) =
       [?c]"
    unfolding retry_provision by (simp add: init_def)
  from d p a l show ?thesis by simp
qed

section \<open>Termination of an EC2 instance\<close>

text \<open>
  C9. A \<open>deleteInstance\<close> call that returns has issued \<open>TerminateInstances\<close> once
  before the poll and once more in each of the \<open>m\<close> attempts of the poll, of which there
  is at least one and at most 51: the attempt of the poll is itself a
  \<open>TerminateInstances\<close> call, and the calls issued are \<open>m + 1 \<ge> 2\<close> copies of it and
  nothing else.
\<close>

theorem deleteInstance_terminates_twice:
  assumes "fst (deleteInstance R rnd i s) = Return resp"
  shows "\<exists>m. 1 \<le> m \<and> m \<le> 51 \<and>
           calls (snd (deleteInstance R rnd i s)) =
             calls s @ replicate (Suc m) (TerminateInstances \<lparr>InstanceIds = [i]\<rparr>)"
proof -
  from assms obtain a where i: "i = JStr a"
    by (cases i) (simp_all add: deleteInstance_def await_def sdk_def Let_def)
  let ?p = "\<lparr>InstanceIds = [JStr a]\<rparr>"
  let ?c = "TerminateInstances ?p"
  let ?ts = "timeouts deleteInstance_options rnd"
  let ?s1 = "console_log [Lit ''Waiting for termination...''] (issue ?c s)"
  have l: "length ?ts = 50" by (simp add: length_timeouts deleteInstance_options_def)
  from assms obtain r where r: "terminateInstances R (length (calls s)) ?p = Inr r"
    unfolding i
    by (cases "terminateInstances R (length (calls s)) ?p")
      (simp_all add: deleteInstance_def await_def sdk_def Let_def)
  have s1: "calls ?s1 = calls s @ [?c]" by (simp add: console_log_def issue_def)
  from retry_loop_trace [where fn = "deleteInstance_attempt R ?p" and c = ?c and ts = ?ts
      and errs = "[]" and s = ?s1, OF delete_attempt_step] obtain m where
    m: "m \<le> length ?ts"
    "calls (snd (retry_loop (deleteInstance_attempt R ?p) ?ts [] ?s1)) =
       calls ?s1 @ replicate (Suc m) ?c"
    by blast
  have "calls (snd (deleteInstance R rnd i s)) =
      calls (snd (retry_loop (deleteInstance_attempt R ?p) ?ts [] ?s1))"
    using r unfolding i
    by (cases "retry_loop (deleteInstance_attempt R ?p) ?ts [] ?s1";
        cases "fst (retry_loop (deleteInstance_attempt R ?p) ?ts [] ?s1)")
      (simp_all add: deleteInstance_def await_def sdk_def Let_def retry_delete)
  with m s1 have "calls (snd (deleteInstance R rnd i s)) = calls s @ replicate (Suc (Suc m)) ?c"
    by (simp add: replicate_app_Cons_same)
  with m(1) l show ?thesis unfolding i by (intro exI [of _ "Suc m"]) simp
qed

theorem deleteInstance_terminates_twice_witness:
  "fst (deleteInstance (stub 0) no_jitter (JStr ''i-0555'') init) =
     Return \<lparr>TerminatingInstances =
               Some [\<lparr>CurrentState = Some \<lparr>Name = ''terminated''\<rparr>\<rparr>]\<rparr> \<and>
   (\<exists>m. 1 \<le> m \<and> m \<le> 51 \<and>
      calls (snd (deleteInstance (stub 0) no_jitter (JStr ''i-0555'') init)) =
        calls init @ replicate (Suc m) (TerminateInstances \<lparr>InstanceIds = [JStr ''i-0555'']\<rparr>))"
proof -
  let ?p = "\<lparr>InstanceIds = [JStr ''i-0555'']\<rparr>"
  let ?s1 = "console_log [Lit ''Waiting for termination...''] (issue (TerminateInstances ?p) init)"
  from delete_loop_ready [where ts = "timeouts deleteInstance_options no_jitter" and k = 0
      and R = "stub 0" and s = ?s1 and i = "''i-0555''" and errs = "[]" and v = "''terminated''"]
  have "fst (termination_poll (stub 0) ''i-0555'' no_jitter ?s1) = Return ''terminated''"
    unfolding retry_delete stub_terminal_state by simp
  then have r: "fst (deleteInstance (stub 0) no_jitter (JStr ''i-0555'') init) =
     Return \<lparr>TerminatingInstances =
               Some [\<lparr>CurrentState = Some \<lparr>Name = ''terminated''\<rparr>\<rparr>]\<rparr>"
    by (cases "termination_poll (stub 0) ''i-0555'' no_jitter ?s1")
      (simp add: deleteInstance_def await_def sdk_def Let_def stub_def)
  from deleteInstance_terminates_twice [OF r] r show ?thesis by blast
qed

section \<open>A complete run\<close>

text \<open>
  The command \<open>create digitalocean\<close> against a stub account whose droplet 555 has no
  address in the answers to the first two polls and has the address \<open>203.0.113.5\<close> in the
  third: the key is looked up, the droplet is created, and the poll ends after three
  requests.
\<close>

lemma create_digitalocean_scenario:
  "fst (provisionDigitalOceanDroplet (Some ''tok'') ''0b7f'' (stub 4) no_jitter init) = Return () \<and>
   calls (snd (provisionDigitalOceanDroplet (Some ''tok'') ''0b7f'' (stub 4) no_jitter init)) =
     [GET AccountKeysUrl (headers (DigitalOceanProvider ''tok'')),
      POST DropletsUrl (headers (DigitalOceanProvider ''tok''))
        \<lparr>req_name = ''jwmanes2-0b7f'', req_region = ''nyc1'', req_size = ''512mb'',
         req_image = ''ubuntu-19-10-x64'', req_ssh_keys = [42], req_backups = False,
         req_ipv6 = False, req_user_data = None, req_private_networking = None\<rparr>,
      droplet_request (DigitalOceanProvider ''tok'') 555,
      droplet_request (DigitalOceanProvider ''tok'') 555,
      droplet_request (DigitalOceanProvider ''tok'') 555]"
proof -
  let ?client = "DigitalOceanProvider ''tok''"
  let ?data = "\<lparr>req_name = ''jwmanes2-0b7f'', req_region = ''nyc1'', req_size = ''512mb'',
         req_image = ''ubuntu-19-10-x64'', req_ssh_keys = [42], req_backups = False,
         req_ipv6 = False, req_user_data = None, req_private_networking = None\<rparr>"
  let ?s = "\<lparr>calls = [GET AccountKeysUrl (headers ?client), POST DropletsUrl (headers ?client) ?data],
     console = [Log [Lit ''Attempting to create: '', Json ?data], Log [Lit ''Created droplet id '', Num 555]],
     sleeps = []\<rparr>"
  have c: "createDroplet (stub 4) ?client ''jwmanes2-0b7f'' ''nyc1'' ''ubuntu-19-10-x64'' ''csc519'' init =
     (Return (Some \<lparr>statusCode = 202, statusMessage = ''Accepted'', retry_after = None,
          body = Some \<lparr>ssh_keys = None,
                       droplet = Some \<lparr>droplet_id = 555, networks = None\<rparr>\<rparr>\<rparr>), ?s)"
    by (simp add: createDroplet_def findSSHKeyPair_def makeRequest_def prog_defs Let_def
        stub_got reply_def succeeded_def init_def)
  have l: "length (timeouts provision_options no_jitter) = 10"
    by (simp add: length_timeouts provision_options_def)
  from droplet_loop_ready [where ts = "timeouts provision_options no_jitter" and k = 2
      and R = "stub 4" and s = ?s and client = ?client and i = 555
      and errs = "[]" and v = "''203.0.113.5''"] l
  have p: "fst (droplet_poll (stub 4) ?client 555 no_jitter ?s) = Return ''203.0.113.5'' \<and>
     calls (snd (droplet_poll (stub 4) ?client 555 no_jitter ?s)) =
       calls ?s @ replicate 3 (droplet_request ?client 555)"
    unfolding retry_provision stub_droplet_ip by (simp add: numeral_3_eq_3)
  show ?thesis
    using c p
    by (cases "droplet_poll (stub 4) ?client 555 no_jitter ?s")
      (simp add: provisionDigitalOceanDroplet_def validateDigitalOceanToken_def await_def
        Let_def numeral_3_eq_3)
qed

end
